theory Spec2Isabelle
  imports Complex_Main "HOL-Library.AList" "HOL-Library.Sublist"
begin

section \<open>Conventions of the embedding\<close>

text \<open>
  The scoring, matching and recommendation code is Python. A \<^verbatim>\<open>dict\<close> is an
  association list in insertion order; a Python dict never repeats a key, which is the
  hypothesis \<open>distinct (map fst d)\<close> wherever a result depends on it. Exceptions are values
  of \<open>py_error\<close>, returned on the left of a sum.

  Numbers are reals. Python computes with binary64 doubles, and the model comes in two
  grains. Orderings, classifications, selections, clamped ranges and error cases are
  proved over exact arithmetic (\<^typ>\<open>real\<close> with the operations as written). The
  properties of the comparator that depend on how a sum or a difference is rounded (its
  bounds, its symmetry, the figures of the worked scenario) are proved over the
  comparator in double precision, defined in its own section below, where every operation
  is followed by the rounding of the hardware.
\<close>

datatype py_error = ZeroDivisionError | KeyError | TypeError

type_synonym 'v pydict = "(string \<times> 'v) list"

definition dict_get :: "('k \<times> 'v) list \<Rightarrow> 'k \<Rightarrow> 'v \<Rightarrow> 'v" where
  \<comment> \<open>\<^verbatim>\<open>d.get(k, dflt)\<close>\<close>
  "dict_get d k dflt = (case map_of d k of None \<Rightarrow> dflt | Some v \<Rightarrow> v)"

definition py_sorted_desc :: "('a \<Rightarrow> real) \<Rightarrow> 'a list \<Rightarrow> 'a list" where
  \<comment> \<open>\<^verbatim>\<open>sorted(xs, key=key, reverse=True)\<close> and \<^verbatim>\<open>xs.sort(key=key, reverse=True)\<close>:
      CPython reverses the list, sorts it stably in ascending order, and reverses the result.\<close>
  "py_sorted_desc key xs = rev (sort_key key (rev xs))"

definition py_slice_to :: "'a list \<Rightarrow> int \<Rightarrow> 'a list" where
  \<comment> \<open>\<^verbatim>\<open>xs[:n]\<close>; a negative \<open>n\<close> counts from the end.\<close>
  "py_slice_to xs n = (if 0 \<le> n then take (nat n) xs else take (nat (int (length xs) + n)) xs)"

definition py_int :: "real \<Rightarrow> int" where
  \<comment> \<open>\<^verbatim>\<open>int(x)\<close> on a float truncates towards zero.\<close>
  "py_int x = (if 0 \<le> x then \<lfloor>x\<rfloor> else \<lceil>x\<rceil>)"

definition round_half_even :: "real \<Rightarrow> int" where
  "round_half_even x =
     (let f = \<lfloor>x\<rfloor>; d = x - of_int f
      in if d < 1 / 2 then f else if 1 / 2 < d then f + 1 else if even f then f else f + 1)"

definition py_round :: "real \<Rightarrow> nat \<Rightarrow> real" where
  \<comment> \<open>\<^verbatim>\<open>round(x, ndigits)\<close>: the nearest multiple of \<open>10 ^ -ndigits\<close>, ties to even.\<close>
  "py_round x ndigits = of_int (round_half_even (x * 10 ^ ndigits)) / 10 ^ ndigits"

section \<open>Double-precision rounding\<close>

text \<open>
  Python's \<^verbatim>\<open>float\<close> is the IEEE 754 binary64 format. Where a property turns on how a
  result is rounded, the operation is modelled as the exact operation followed by the
  rounding \<open>fl\<close> of the hardware.

  A positive double is \<open>m * 2 ^ (e - 52)\<close> with an integer \<open>m < 2 ^ 53\<close> and
  \<open>-1022 \<le> e \<le> 1023\<close>. \<open>binade a\<close> is the power of two \<open>2 ^ e\<close> with
  \<open>2 ^ e \<le> a < 2 ^ (e + 1)\<close>, not below \<open>2 ^ -1022\<close> (smaller numbers are subnormal and
  share the spacing of the lowest binade) and not above \<open>2 ^ 1023\<close>; \<open>ulp a\<close> is the
  spacing of the doubles there. \<open>fl x\<close> is the double nearest to \<open>x\<close>, a tie going to the
  even significand: the result of an operation whose exact value is \<open>x\<close>, and the value of
  a decimal literal \<open>x\<close>. Magnitudes of \<open>2 ^ 1024\<close> and more, which overflow, do not occur
  in the code modelled with it.
\<close>

fun scale_dn :: "nat \<Rightarrow> real \<Rightarrow> real \<Rightarrow> real" where
  "scale_dn 0 a s = s"
| "scale_dn (Suc n) a s = (if a < 1 then scale_dn n (2 * a) (s / 2) else s)"

fun scale_up :: "nat \<Rightarrow> real \<Rightarrow> real \<Rightarrow> real" where
  "scale_up 0 a s = s"
| "scale_up (Suc n) a s = (if 2 \<le> a then scale_up n (a / 2) (2 * s) else s)"

definition binade :: "real \<Rightarrow> real" where
  "binade a = (if a < 1 then scale_dn 1022 a 1 else scale_up 1023 a 1)"

definition ulp :: "real \<Rightarrow> real" where
  "ulp a = binade a / 2 ^ 52"

definition fl :: "real \<Rightarrow> real" where
  "fl x = sgn x * (of_int (round_half_even (\<bar>x\<bar> / ulp \<bar>x\<bar>)) * ulp \<bar>x\<bar>)"


section \<open>Weighted comparator (pattern\_comparison.py)\<close>

definition skill_weights :: "(string \<times> real pydict) list" where
  "skill_weights =
    [(''Public Speaking'',
        [(''voice_modulation'', 0.2), (''pause_timing'', 0.15), (''gesture_coordination'', 0.15),
         (''emotional_resonance'', 0.2), (''eye_contact'', 0.15), (''speaking_pace'', 0.15)]),
     (''Sports/Athletics'',
        [(''footwork_precision'', 0.2), (''technique_execution'', 0.25), (''balance'', 0.15),
         (''timing'', 0.2), (''coordination'', 0.2)]),
     (''Music/Instrument'',
        [(''rhythm_accuracy'', 0.25), (''timing_precision'', 0.2), (''finger_technique'', 0.2),
         (''musical_expression'', 0.15), (''tempo_control'', 0.1), (''dynamics'', 0.1)]),
     (''Cooking'',
        [(''knife_skills'', 0.25), (''timing_precision'', 0.2), (''technique_execution'', 0.2),
         (''efficiency'', 0.15), (''safety_awareness'', 0.1), (''multitasking'', 0.1)]),
     (''Dance/Fitness'',
        [(''movement_precision'', 0.25), (''balance'', 0.2), (''rhythm_accuracy'', 0.2),
         (''flexibility'', 0.15), (''coordination'', 0.2)])]"

record metric_comparison =
  user_value :: real
  expert_value :: real
  similarity :: real
  weight :: real
  weighted_score :: real
  gap :: real

record comparison_data =
  overall_similarity :: real
  metric_breakdown :: "metric_comparison pydict"
  cd_skill_type :: string

text \<open>The body of the loop \<^verbatim>\<open>for metric, user_value in user_metrics.items()\<close>.\<close>

fun compare_loop ::
  "real pydict \<Rightarrow> real pydict \<Rightarrow> real pydict \<Rightarrow> real \<times> metric_comparison pydict
     \<Rightarrow> real \<times> metric_comparison pydict" where
  "compare_loop weights expert_pattern [] acc = acc"
| "compare_loop weights expert_pattern ((metric, uv) # rest) (total_score, metric_comparisons) =
     (let ev = dict_get expert_pattern metric 0.5;
          w = dict_get weights metric 0.1;
          difference = \<bar>uv - ev\<bar>;
          sim = 1 - difference;
          ws = sim * w
      in compare_loop weights expert_pattern rest
           (total_score + ws,
            AList.update metric
              \<lparr>user_value = uv, expert_value = ev, similarity = sim, weight = w,
               weighted_score = ws, gap = ev - uv\<rparr> metric_comparisons))"

definition effective_weights :: "real pydict \<Rightarrow> string \<Rightarrow> real pydict" where
  \<comment> \<open>\<^verbatim>\<open>weights = self.skill_weights.get(skill_type, {})\<close>, replaced by equal weights
      \<^verbatim>\<open>{key: 1.0/len(user_metrics) for key in user_metrics.keys()}\<close> when empty.\<close>
  "effective_weights user_metrics skill_type =
     (let weights = dict_get skill_weights skill_type []
      in if weights = []
         then map (\<lambda>key. (key, 1 / real (length user_metrics))) (map fst user_metrics)
         else weights)"

definition compare_to_expert ::
  "real pydict \<Rightarrow> real pydict \<Rightarrow> string \<Rightarrow> real \<times> comparison_data" where
  "compare_to_expert user_metrics expert_pattern skill_type =
     (let weights = effective_weights user_metrics skill_type;
          (total_score, metric_comparisons) =
             compare_loop weights expert_pattern user_metrics (0, [])
      in (total_score,
          \<lparr>overall_similarity = total_score, metric_breakdown = metric_comparisons,
           cd_skill_type = skill_type\<rparr>))"

definition in_unit_range :: "real pydict \<Rightarrow> bool" where
  "in_unit_range m = list_all (\<lambda>p. 0 \<le> snd p \<and> snd p \<le> 1) m"

section \<open>Expert matcher (pattern\_comparison.py)\<close>

text \<open>
  The rows of the tables \<^verbatim>\<open>experts\<close> and \<^verbatim>\<open>expert_patterns\<close>, in the order the
  database returns them. The JSON columns are kept parsed. \<open>recent_comparisons\<close> holds the
  expert ids of the comparison rows of the last 30 days, paired with the skill type of
  their video; \<open>user_analyses\<close> holds one (user id, skill type) pair per analysis result,
  newest first.
\<close>

record expert_row =
  e_id :: int
  e_name :: string
  e_domain :: string
  e_biography :: string
  e_achievements :: "string list"
  e_pattern_data :: "real pydict"

record expert_pattern_row =
  p_expert_id :: int
  p_skill_type :: string
  p_pattern_data :: "real pydict"
  p_confidence_score :: real

record database =
  experts :: "expert_row list"
  expert_patterns :: "expert_pattern_row list"
  recent_comparisons :: "(string \<times> int) list"
  user_analyses :: "(int \<times> string) list"

record expert_match =
  m_expert_id :: int
  m_expert_name :: string
  m_expert_domain :: string
  m_expert_biography :: string
  m_expert_achievements :: "string list"
  similarity_score :: real
  m_comparison_data :: comparison_data
  pattern_confidence :: real

definition query_expert :: "database \<Rightarrow> int \<Rightarrow> expert_row option" where
  \<comment> \<open>\<^verbatim>\<open>db.query(Expert).filter(Expert.id == i).first()\<close>\<close>
  "query_expert db i = find (\<lambda>e. e_id e = i) (experts db)"

definition query_patterns :: "database \<Rightarrow> string \<Rightarrow> expert_pattern_row list" where
  \<comment> \<open>\<^verbatim>\<open>db.query(ExpertPattern).filter(ExpertPattern.skill_type == skill_type).all()\<close>\<close>
  "query_patterns db skill_type = filter (\<lambda>p. p_skill_type p = skill_type) (expert_patterns db)"

fun collect_matches ::
  "database \<Rightarrow> real pydict \<Rightarrow> string \<Rightarrow> expert_pattern_row list \<Rightarrow> expert_match list" where
  "collect_matches db user_metrics skill_type [] = []"
| "collect_matches db user_metrics skill_type (pattern # rest) =
     (case query_expert db (p_expert_id pattern) of
        None \<Rightarrow> collect_matches db user_metrics skill_type rest
      | Some expert \<Rightarrow>
          (let (score, cd) = compare_to_expert user_metrics (p_pattern_data pattern) skill_type
           in \<lparr>m_expert_id = e_id expert, m_expert_name = e_name expert,
               m_expert_domain = e_domain expert, m_expert_biography = e_biography expert,
               m_expert_achievements = e_achievements expert, similarity_score = score,
               m_comparison_data = cd, pattern_confidence = p_confidence_score pattern\<rparr>
              # collect_matches db user_metrics skill_type rest))"

definition find_best_expert_matches ::
  "database \<Rightarrow> real pydict \<Rightarrow> string \<Rightarrow> int \<Rightarrow> expert_match list" where
  "find_best_expert_matches db user_metrics skill_type top_n =
     (let matches = collect_matches db user_metrics skill_type (query_patterns db skill_type)
      in py_slice_to (py_sorted_desc similarity_score matches) top_n)"

section \<open>Feedback generator (pattern\_comparison.py)\<close>

definition replace_underscore :: "string \<Rightarrow> string" where
  \<comment> \<open>\<^verbatim>\<open>metric.replace('_', ' ')\<close>\<close>
  "replace_underscore s = map (\<lambda>c. if c = CHR ''_'' then CHR '' '' else c) s"

definition py_lower :: "string \<Rightarrow> string" where
  \<comment> \<open>\<^verbatim>\<open>str.lower()\<close> on ASCII text\<close>
  "py_lower s =
     map (\<lambda>c. let n = (of_char c :: nat) in if 65 \<le> n \<and> n \<le> 90 then char_of (n + 32) else c) s"




record recommendation =
  r_metric :: string
  r_recommendation :: string
  r_difficulty :: string
  r_expected_improvement_time :: string








text \<open>A small expert corpus: three experts, two of them with the same pattern.\<close>

definition example_db :: database where
  "example_db =
     \<lparr>experts =
        [\<lparr>e_id = 1, e_name = ''Ada'', e_domain = ''Public Speaking'', e_biography = [],
          e_achievements = [], e_pattern_data = []\<rparr>,
         \<lparr>e_id = 2, e_name = ''Bo'', e_domain = ''Public Speaking'', e_biography = [],
          e_achievements = [], e_pattern_data = []\<rparr>,
         \<lparr>e_id = 3, e_name = ''Cy'', e_domain = ''Public Speaking'', e_biography = [],
          e_achievements = [], e_pattern_data = []\<rparr>],
      expert_patterns =
        [\<lparr>p_expert_id = 1, p_skill_type = ''Public Speaking'',
          p_pattern_data = [(''eye_contact'', 0.5)], p_confidence_score = 1\<rparr>,
         \<lparr>p_expert_id = 2, p_skill_type = ''Public Speaking'',
          p_pattern_data = [(''eye_contact'', 0.9)], p_confidence_score = 1\<rparr>,
         \<lparr>p_expert_id = 3, p_skill_type = ''Public Speaking'',
          p_pattern_data = [(''eye_contact'', 0.5)], p_confidence_score = 1\<rparr>],
      recent_comparisons = [], user_analyses = []\<rparr>"




section \<open>Real-time threshold classifier (realtime\_analysis\_engine.py)\<close>

text \<open>
  A metric is a dictionary. The code reads \<^verbatim>\<open>metric["metric_name"]\<close> and
  \<^verbatim>\<open>metric["value"]\<close> directly and the other keys through \<^verbatim>\<open>.get\<close> with a default,
  so those are optional fields here.
\<close>

record rt_metric =
  metric_name :: string
  metric_value :: real
  target_value :: "real option"
  improvement_delta :: "real option"
  performance_level :: "string option"

record suggestion_template =
  template :: string
  t_priority :: string
  t_category :: string

text \<open>
  The content of a suggestion is the template text formatted with three numbers; the
  record keeps the template and the numbers passed to \<^verbatim>\<open>format\<close>.
\<close>

record suggestion_content =
  c_template :: string
  c_current_value :: real
  c_target_value :: real
  c_improvement_potential :: real

record suggestion =
  suggestion_type :: string
  content :: suggestion_content
  priority :: string
  sg_category :: string
  confidence_score :: real
  metric_impact :: real

definition suggestion_templates :: "(string \<times> suggestion_template list) list" where
  "suggestion_templates =
    [(''posture_stability'',
       [\<lparr>template = ''Stand with your feet shoulder-width apart for better stability. Current stability: {current_value}%, target: {target_value}%'',
         t_priority = ''high'', t_category = ''movement''\<rparr>,
        \<lparr>template = ''Keep your shoulders relaxed and aligned. This will improve your overall presence by {improvement_potential}%'',
         t_priority = ''medium'', t_category = ''movement''\<rparr>]),
     (''speech_pace'',
       [\<lparr>template = ''Your speaking pace is {current_value} WPM. Try slowing down to {target_value} WPM for better comprehension'',
         t_priority = ''high'', t_category = ''speech''\<rparr>,
        \<lparr>template = ''Add more pauses between key points. Current pause frequency: {current_value}, optimal: {target_value}'',
         t_priority = ''medium'', t_category = ''speech''\<rparr>]),
     (''eye_contact'',
       [\<lparr>template = ''Increase eye contact with your audience. Current: {current_value}%, aim for {target_value}%'',
         t_priority = ''high'', t_category = ''movement''\<rparr>,
        \<lparr>template = ''Try looking at different sections of the audience for 3-5 seconds each'',
         t_priority = ''medium'', t_category = ''movement''\<rparr>]),
     (''rhythm_accuracy'',
       [\<lparr>template = ''Focus on staying in sync with the beat. Current accuracy: {current_value}%, target: {target_value}%'',
         t_priority = ''high'', t_category = ''timing''\<rparr>]),
     (''technique_score'',
       [\<lparr>template = ''Pay attention to your hand position and posture. Current technique score: {current_value}%'',
         t_priority = ''medium'', t_category = ''technique''\<rparr>])]"

definition get_delta :: "rt_metric \<Rightarrow> real" where
  \<comment> \<open>\<^verbatim>\<open>metric.get("improvement_delta", 0)\<close>\<close>
  "get_delta m = (case improvement_delta m of None \<Rightarrow> 0 | Some d \<Rightarrow> d)"

definition determine_priority :: "rt_metric \<Rightarrow> string" where
  "determine_priority m =
     (let delta = get_delta m;
          level = (case performance_level m of None \<Rightarrow> ''fair'' | Some l \<Rightarrow> l)
      in if level = ''needs_improvement'' \<or> delta > 15 then ''high''
         else if delta > 8 then ''medium''
         else ''low'')"

definition calculate_confidence_score :: "rt_metric \<Rightarrow> real" where
  "calculate_confidence_score m =
     (let delta = get_delta m
      in if delta > 20 then 0.95
         else if delta > 10 then 0.85
         else if delta > 5 then 0.75
         else 0.65)"

text \<open>The loop \<^verbatim>\<open>for metric in prioritized_metrics[:5]\<close>, appending to \<^verbatim>\<open>suggestions\<close>.\<close>

fun suggestion_loop :: "rt_metric list \<Rightarrow> suggestion list \<Rightarrow> suggestion list" where
  "suggestion_loop [] suggestions = suggestions"
| "suggestion_loop (m # rest) suggestions =
     (case dict_get suggestion_templates (metric_name m) [] of
        [] \<Rightarrow> suggestion_loop rest suggestions
      | t # _ \<Rightarrow>
          if get_delta m > 0
          then suggestion_loop rest
                 (suggestions @
                  [\<lparr>suggestion_type = metric_name m,
                    content =
                      \<lparr>c_template = template t,
                       c_current_value = metric_value m,
                       c_target_value =
                         (case target_value m of None \<Rightarrow> metric_value m * 1.2 | Some v \<Rightarrow> v),
                       c_improvement_potential = py_round (get_delta m) 1\<rparr>,
                    priority = determine_priority m,
                    sg_category = t_category t,
                    confidence_score = calculate_confidence_score m,
                    metric_impact = get_delta m\<rparr>])
          else suggestion_loop rest suggestions)"

definition generate_improvement_suggestions :: "rt_metric list \<Rightarrow> string \<Rightarrow> suggestion list" where
  "generate_improvement_suggestions metrics skill_type =
     (let prioritized_metrics = py_sorted_desc get_delta metrics
      in suggestion_loop (py_slice_to prioritized_metrics 5) [])"

definition metric_weights :: "(string \<times> real pydict) list" where
  "metric_weights =
    [(''Public Speaking'',
       [(''confidence_score'', 1.5), (''eye_contact_percentage'', 1.3), (''posture_stability'', 1.2),
        (''pace_words_per_minute'', 1.1), (''volume_consistency'', 1.0), (''gesture_frequency'', 0.8),
        (''pause_frequency'', 0.7)]),
     (''Dance/Fitness'',
       [(''rhythm_accuracy'', 1.5), (''movement_fluidity'', 1.3), (''joint_stability'', 1.2),
        (''energy_level'', 1.0), (''beat_synchronization'', 1.1)]),
     (''Music/Instrument'',
       [(''rhythm_consistency'', 1.5), (''timing_accuracy'', 1.4), (''finger_position'', 1.2),
        (''hand_coordination'', 1.1), (''posture_score'', 1.0)])]"

definition get_metric_weight :: "string \<Rightarrow> string \<Rightarrow> real" where
  "get_metric_weight name skill_type =
     dict_get (dict_get metric_weights skill_type []) name 1.0"

text \<open>The loop of the weighted average: the pair is (total weighted score, total weight).\<close>

fun score_loop :: "string \<Rightarrow> rt_metric list \<Rightarrow> real \<times> real \<Rightarrow> real \<times> real" where
  "score_loop skill_type [] acc = acc"
| "score_loop skill_type (m # rest) (total_weighted_score, total_weight) =
     (let w = get_metric_weight (metric_name m) skill_type;
          score = metric_value m;
          score' = (if score > 100 then min (score / 2) 100 else score)
      in score_loop skill_type rest (total_weighted_score + score' * w, total_weight + w))"

definition calculate_overall_score :: "rt_metric list \<Rightarrow> string \<Rightarrow> real" where
  "calculate_overall_score metrics skill_type =
     (if metrics = [] then 50.0
      else (let (total_weighted_score, total_weight) = score_loop skill_type metrics (0, 0);
                overall_score = (if total_weight > 0 then total_weighted_score / total_weight
                                 else 50.0)
            in py_round (min (max overall_score 0) 100) 1))"

definition has_template :: "string \<Rightarrow> bool" where
  \<comment> \<open>\<^verbatim>\<open>self.suggestion_templates.get(metric_name, [])\<close> is a non-empty list.\<close>
  "has_template name = (dict_get suggestion_templates name [] \<noteq> [])"


text \<open>Seven metrics of one pass; two of the five largest deltas have no template.\<close>

definition example_metrics :: "rt_metric list" where
  "example_metrics =
     [\<lparr>metric_name = ''rhythm_accuracy'', metric_value = 96, target_value = Some 95,
       improvement_delta = None, performance_level = Some ''excellent''\<rparr>,
      \<lparr>metric_name = ''speech_pace'', metric_value = 147, target_value = Some 150,
       improvement_delta = Some 3, performance_level = Some ''good''\<rparr>,
      \<lparr>metric_name = ''volume_consistency'', metric_value = 60, target_value = Some 90,
       improvement_delta = Some 30, performance_level = Some ''fair''\<rparr>,
      \<lparr>metric_name = ''technique_score'', metric_value = 85, target_value = Some 90,
       improvement_delta = Some 5, performance_level = Some ''good''\<rparr>,
      \<lparr>metric_name = ''eye_contact'', metric_value = 60, target_value = Some 80,
       improvement_delta = Some 20, performance_level = Some ''fair''\<rparr>,
      \<lparr>metric_name = ''head_movement'', metric_value = 75, target_value = Some 90,
       improvement_delta = Some 15, performance_level = Some ''fair''\<rparr>,
      \<lparr>metric_name = ''posture_stability'', metric_value = 80, target_value = Some 90,
       improvement_delta = Some 10, performance_level = Some ''fair''\<rparr>]"


section \<open>Multi-strategy recommender (expert\_recommendations.py)\<close>

text \<open>
  The recommender passes expert dictionaries around by reference and writes to them in
  place: one dictionary can be in the result lists of several strategies, and a later
  write is seen through every reference. The dictionaries therefore live in a store (a
  list), and the strategies return references (indices into the store) together with
  the updated store. The keys \<^verbatim>\<open>recommendation_score\<close>, \<^verbatim>\<open>strategy\<close>,
  \<^verbatim>\<open>strategy_weight\<close> and \<^verbatim>\<open>final_score\<close> are absent until written, hence optional.
  The presentation keys (biography, achievements, confidence score, the formatted
  \<^verbatim>\<open>similarity_reason\<close>) are never read by the recommender and are left out.
\<close>

record rec_expert =
  expert_id :: int
  rx_name :: string
  rx_domain :: string
  pattern_data :: "real pydict"
  recommendation_score :: "real option"
  strategy :: "string option"
  strategy_weight :: "real option"
  final_score :: "real option"

type_synonym store = "rec_expert list"

definition recommendation_strategies :: "real pydict" where
  "recommendation_strategies =
     [(''similar_performance'', 0.4), (''aspirational'', 0.3), (''progressive'', 0.2),
      (''cross_domain'', 0.1)]"

definition average :: "real pydict \<Rightarrow> py_error + real" where
  \<comment> \<open>\<^verbatim>\<open>sum(m.values()) / len(m)\<close>\<close>
  "average m = (if m = [] then Inl ZeroDivisionError
                else Inr (sum_list (map snd m) / real (length m)))"

definition get_available_experts :: "database \<Rightarrow> string \<Rightarrow> store" where
  "get_available_experts db skill_type =
     concat (map (\<lambda>pattern.
        case query_expert db (p_expert_id pattern) of
          None \<Rightarrow> []
        | Some expert \<Rightarrow>
            [\<lparr>expert_id = e_id expert, rx_name = e_name expert, rx_domain = e_domain expert,
              pattern_data = p_pattern_data pattern, recommendation_score = None,
              strategy = None, strategy_weight = None, final_score = None\<rparr>])
        (query_patterns db skill_type))"

definition score_of :: "store \<Rightarrow> nat \<Rightarrow> real" where
  \<comment> \<open>\<^verbatim>\<open>x["recommendation_score"]\<close> as a sort key; every sorted dictionary has the key.\<close>
  "score_of st r = (case recommendation_score (st ! r) of Some v \<Rightarrow> v | None \<Rightarrow> 0)"

text \<open>
  The loop shared by the four strategies over the available experts: the strategy's test
  yields the score when the expert qualifies; the score is written into the expert's
  dictionary and the expert is appended to the strategy's list.
\<close>

fun strategy_loop ::
  "(real pydict \<Rightarrow> py_error + real option) \<Rightarrow> nat list \<Rightarrow> store \<Rightarrow> nat list
     \<Rightarrow> py_error + (store \<times> nat list)" where
  "strategy_loop test [] st acc = Inr (st, acc)"
| "strategy_loop test (r # rs) st acc =
     (case test (pattern_data (st ! r)) of
        Inl e \<Rightarrow> Inl e
      | Inr None \<Rightarrow> strategy_loop test rs st acc
      | Inr (Some sc) \<Rightarrow>
          strategy_loop test rs (st[r := (st ! r)\<lparr>recommendation_score := Some sc\<rparr>]) (acc @ [r]))"

definition top_by_score :: "int \<Rightarrow> store \<times> nat list \<Rightarrow> store \<times> nat list" where
  \<comment> \<open>\<^verbatim>\<open>sorted(xs, key=lambda x: x["recommendation_score"], reverse=True)[:k]\<close>\<close>
  "top_by_score k = (\<lambda>(st, xs). (st, py_slice_to (py_sorted_desc (score_of st) xs) k))"

definition find_similar_level_experts ::
  "store \<Rightarrow> nat list \<Rightarrow> real pydict \<Rightarrow> py_error + (store \<times> nat list)" where
  "find_similar_level_experts st pool user_metrics =
     (case average user_metrics of
        Inl e \<Rightarrow> Inl e
      | Inr user_avg_score \<Rightarrow>
          map_sum id (top_by_score 3)
            (strategy_loop
               (\<lambda>expert_metrics.
                  case average expert_metrics of
                    Inl e \<Rightarrow> Inl e
                  | Inr expert_avg_score \<Rightarrow>
                      Inr (if \<bar>expert_avg_score - user_avg_score\<bar> \<le> 0.2
                           then Some (1 - \<bar>expert_avg_score - user_avg_score\<bar>) else None))
               pool st []))"

definition find_aspirational_experts ::
  "store \<Rightarrow> nat list \<Rightarrow> real pydict \<Rightarrow> py_error + (store \<times> nat list)" where
  "find_aspirational_experts st pool user_metrics =
     map_sum id (top_by_score 2)
       (strategy_loop
          (\<lambda>expert_metrics.
             case average expert_metrics of
               Inl e \<Rightarrow> Inl e
             | Inr expert_avg_score \<Rightarrow>
                 Inr (if expert_avg_score \<ge> 0.85 then Some expert_avg_score else None))
          pool st [])"

definition find_progressive_experts ::
  "store \<Rightarrow> nat list \<Rightarrow> real pydict \<Rightarrow> py_error + (store \<times> nat list)" where
  "find_progressive_experts st pool user_metrics =
     (case average user_metrics of
        Inl e \<Rightarrow> Inl e
      | Inr user_avg_score \<Rightarrow>
          map_sum id (top_by_score 2)
            (strategy_loop
               (\<lambda>expert_metrics.
                  case average expert_metrics of
                    Inl e \<Rightarrow> Inl e
                  | Inr expert_avg_score \<Rightarrow>
                      Inr (if 0.1 \<le> expert_avg_score - user_avg_score
                              \<and> expert_avg_score - user_avg_score \<le> 0.3
                           then Some (expert_avg_score - user_avg_score) else None))
               pool st []))"

text \<open>The inner loop over the weak metrics: (strength in weakness, relevant metrics).\<close>

fun weakness_loop :: "real pydict \<Rightarrow> real pydict \<Rightarrow> real \<times> nat \<Rightarrow> real \<times> nat" where
  "weakness_loop expert_metrics [] acc = acc"
| "weakness_loop expert_metrics ((metric, uv) # rest) (strength_in_weakness, relevant_metrics) =
     (case map_of expert_metrics metric of
        None \<Rightarrow> weakness_loop expert_metrics rest (strength_in_weakness, relevant_metrics)
      | Some ev \<Rightarrow>
          if ev > 0.8
          then weakness_loop expert_metrics rest
                 (strength_in_weakness + (ev - uv), relevant_metrics + 1)
          else weakness_loop expert_metrics rest (strength_in_weakness, relevant_metrics))"

definition find_improvement_focused_experts ::
  "store \<Rightarrow> nat list \<Rightarrow> real pydict \<Rightarrow> py_error + (store \<times> nat list)" where
  "find_improvement_focused_experts st pool user_metrics =
     (let weak_metrics = filter (\<lambda>p. snd p < 0.6) user_metrics
      in if weak_metrics = [] then Inr (st, [])
         else map_sum id (top_by_score 2)
                (strategy_loop
                   (\<lambda>expert_metrics.
                      let (strength_in_weakness, relevant_metrics) =
                            weakness_loop expert_metrics weak_metrics (0, 0)
                      in Inr (if relevant_metrics > 0
                              then Some (strength_in_weakness / real relevant_metrics)
                              else None))
                   pool st []))"

fun count_popularity :: "int list \<Rightarrow> (int \<times> nat) list \<Rightarrow> (int \<times> nat) list" where
  "count_popularity [] expert_popularity = expert_popularity"
| "count_popularity (i # rest) expert_popularity =
     count_popularity rest (AList.update i (dict_get expert_popularity i 0 + 1) expert_popularity)"

text \<open>The trending experts are new dictionaries, allocated at the end of the store.\<close>

fun trending_loop :: "database \<Rightarrow> (int \<times> nat) list \<Rightarrow> store \<Rightarrow> nat list \<Rightarrow> store \<times> nat list" where
  "trending_loop db [] st acc = (st, acc)"
| "trending_loop db ((i, cnt) # rest) st acc =
     (case query_expert db i of
        None \<Rightarrow> trending_loop db rest st acc
      | Some expert \<Rightarrow>
          trending_loop db rest
            (st @ [\<lparr>expert_id = e_id expert, rx_name = e_name expert, rx_domain = e_domain expert,
                    pattern_data = e_pattern_data expert,
                    recommendation_score = Some (real cnt / 10),
                    strategy = None, strategy_weight = None, final_score = None\<rparr>])
            (acc @ [length st]))"

definition get_trending_experts :: "database \<Rightarrow> string \<Rightarrow> store \<Rightarrow> store \<times> nat list" where
  "get_trending_experts db skill_type st =
     (let recent = map snd (filter (\<lambda>c. fst c = skill_type) (recent_comparisons db));
          expert_popularity = count_popularity recent []
      in trending_loop db
           (py_slice_to (py_sorted_desc (\<lambda>x. real (snd x)) expert_popularity) 2) st [])"

text \<open>First loop of the combination: weight every expert of every strategy.\<close>

fun weight_experts :: "string \<Rightarrow> real \<Rightarrow> nat list \<Rightarrow> store \<times> nat list \<Rightarrow> store \<times> nat list" where
  "weight_experts strat w [] acc = acc"
| "weight_experts strat w (r # rs) (st, all_recommendations) =
     weight_experts strat w rs
       (st[r := (st ! r)\<lparr>strategy := Some strat, strategy_weight := Some w,
                         final_score :=
                           Some ((case recommendation_score (st ! r) of
                                    None \<Rightarrow> 0.5 | Some v \<Rightarrow> v) * w)\<rparr>],
        all_recommendations @ [r])"

fun weight_strategies :: "(string \<times> nat list) list \<Rightarrow> store \<times> nat list \<Rightarrow> store \<times> nat list" where
  "weight_strategies [] acc = acc"
| "weight_strategies ((strat, pool) # rest) acc =
     weight_strategies rest
       (weight_experts strat (dict_get recommendation_strategies strat 0.1) pool acc)"

definition final_of :: "store \<Rightarrow> nat \<Rightarrow> real" where
  \<comment> \<open>\<^verbatim>\<open>rec["final_score"]\<close>; written for every recommendation by the first loop.\<close>
  "final_of st r = (case final_score (st ! r) of Some v \<Rightarrow> v | None \<Rightarrow> 0)"

text \<open>Second loop: one recommendation per expert id, the highest scoring one.\<close>

fun dedup_loop :: "store \<Rightarrow> nat list \<Rightarrow> (int \<times> nat) list \<Rightarrow> (int \<times> nat) list" where
  "dedup_loop st [] unique_recommendations = unique_recommendations"
| "dedup_loop st (r # rs) unique_recommendations =
     (let i = expert_id (st ! r)
      in case map_of unique_recommendations i of
           None \<Rightarrow> dedup_loop st rs (AList.update i r unique_recommendations)
         | Some r' \<Rightarrow>
             if final_of st r > final_of st r'
             then dedup_loop st rs (AList.update i r unique_recommendations)
             else dedup_loop st rs unique_recommendations)"

definition rank_and_combine_recommendations ::
  "store \<Rightarrow> (string \<times> nat list) list \<Rightarrow> int \<Rightarrow> store \<times> nat list" where
  "rank_and_combine_recommendations st recs num_recommendations =
     (let (st', all_recommendations) = weight_strategies recs (st, []);
          final_list = map snd (dedup_loop st' all_recommendations [])
      in (st', py_slice_to (py_sorted_desc (final_of st') final_list) num_recommendations))"

subsection \<open>Learning path, timeline and level\<close>

fun title_from :: "bool \<Rightarrow> string \<Rightarrow> string" where
  "title_from prev [] = []"
| "title_from prev (c # cs) =
     (let n = (of_char c :: nat)
      in if 97 \<le> n \<and> n \<le> 122
         then (if prev then c else char_of (n - 32)) # title_from True cs
         else if 65 \<le> n \<and> n \<le> 90
         then (if prev then char_of (n + 32) else c) # title_from True cs
         else c # title_from False cs)"

definition py_title :: "string \<Rightarrow> string" where
  \<comment> \<open>\<^verbatim>\<open>str.title()\<close> on ASCII text: a letter is upper case exactly when no letter precedes it.\<close>
  "py_title s = title_from False s"

record gap_entry =
  g_metric :: string
  g_gap :: real
  g_current :: real
  g_target :: real

record learning_step =
  step :: nat
  focus_area :: string
  current_level :: real
  target_level :: real
  improvement_needed :: real
  ls_priority :: string
  estimated_weeks :: int

record learning_path =
  total_estimated_weeks :: int
  learning_steps :: "learning_step list"
  recommended_practice_frequency :: string
  key_focus :: string

text \<open>
  The loop \<^verbatim>\<open>for metric, expert_value in expert_metrics.items()\<close> collecting the gaps.
  The gap is the rounded difference, and it is compared with the double 0.1.
\<close>

fun find_gaps :: "real pydict \<Rightarrow> real pydict \<Rightarrow> gap_entry list" where
  "find_gaps [] user_metrics = []"
| "find_gaps ((metric, ev) # rest) user_metrics =
     (case map_of user_metrics metric of
        None \<Rightarrow> find_gaps rest user_metrics
      | Some uv \<Rightarrow>
          if fl (ev - uv) > fl 0.1
          then \<lparr>g_metric = metric, g_gap = fl (ev - uv), g_current = uv, g_target = ev\<rparr>
                 # find_gaps rest user_metrics
          else find_gaps rest user_metrics)"

text \<open>The loop \<^verbatim>\<open>for i, gap in enumerate(gaps[:3])\<close>; \<open>i\<close> is the index reached.\<close>

fun make_steps :: "nat \<Rightarrow> gap_entry list \<Rightarrow> learning_step list" where
  "make_steps i [] = []"
| "make_steps i (g # gs) =
     \<lparr>step = i + 1,
      focus_area = py_title (replace_underscore (g_metric g)),
      current_level = g_current g,
      target_level = g_target g,
      improvement_needed = g_gap g,
      ls_priority = (if g_gap g > fl 0.3 then ''high'' else ''medium''),
      estimated_weeks = max 2 (py_int (fl (g_gap g * 8)))\<rparr>
     # make_steps (i + 1) gs"

definition generate_learning_path :: "rec_expert \<Rightarrow> real pydict \<Rightarrow> learning_path" where
  "generate_learning_path recommendation user_metrics =
     (let expert_metrics = pattern_data recommendation;
          gaps = py_sorted_desc g_gap (find_gaps expert_metrics user_metrics);
          steps = make_steps 0 (py_slice_to gaps 3)
      in \<lparr>total_estimated_weeks = sum_list (map estimated_weeks steps),
          learning_steps = steps,
          recommended_practice_frequency = ''Daily, 30-45 minutes'',
          key_focus = ''Emulate '' @ rx_name recommendation @ '''s approach to ''
                        @ py_lower (rx_domain recommendation)\<rparr>)"

definition estimate_improvement_timeline ::
  "rec_expert \<Rightarrow> real pydict \<Rightarrow> py_error + (string \<times> string)" where
  "estimate_improvement_timeline recommendation user_metrics =
     (case average user_metrics of
        Inl e \<Rightarrow> Inl e
      | Inr user_avg \<Rightarrow>
          (case average (pattern_data recommendation) of
             Inl e \<Rightarrow> Inl e
           | Inr expert_avg \<Rightarrow>
               (let g = expert_avg - user_avg
                in if g \<le> 0.1 then Inr (''2-4 weeks'', ''easy'')
                   else if g \<le> 0.3 then Inr (''2-3 months'', ''moderate'')
                   else Inr (''6+ months'', ''challenging''))))"

definition assess_user_level :: "real pydict \<Rightarrow> py_error + string" where
  "assess_user_level user_metrics =
     (case average user_metrics of
        Inl e \<Rightarrow> Inl e
      | Inr avg_score \<Rightarrow>
          if avg_score \<ge> 0.8 then Inr ''advanced''
          else if avg_score \<ge> 0.6 then Inr ''intermediate''
          else if avg_score \<ge> 0.4 then Inr ''beginner_plus''
          else Inr ''beginner'')"

subsection \<open>The recommendation request\<close>

record recommended =
  rec_data :: rec_expert
  rec_learning_path :: learning_path
  expected_timeline :: "string \<times> string"

record recommendation_bundle =
  rb_recommendations :: "recommended list"
  user_current_level :: string
  rb_skill_type :: string
  experience_level :: string
  practice_frequency :: nat
  improvement_trend :: string
  focus_areas :: "string list"

text \<open>The loop \<^verbatim>\<open>for rec in final_recommendations\<close> attaching path and timeline.\<close>

fun attach_paths :: "store \<Rightarrow> nat list \<Rightarrow> real pydict \<Rightarrow> py_error + recommended list" where
  "attach_paths st [] user_metrics = Inr []"
| "attach_paths st (r # rs) user_metrics =
     (case estimate_improvement_timeline (st ! r) user_metrics of
        Inl e \<Rightarrow> Inl e
      | Inr timeline \<Rightarrow>
          (case attach_paths st rs user_metrics of
             Inl e \<Rightarrow> Inl e
           | Inr rest \<Rightarrow>
               Inr (\<lparr>rec_data = st ! r,
                     rec_learning_path = generate_learning_path (st ! r) user_metrics,
                     expected_timeline = timeline\<rparr> # rest)))"

definition get_personalized_recommendations ::
  "database \<Rightarrow> int \<Rightarrow> string \<Rightarrow> real pydict \<Rightarrow> int \<Rightarrow> py_error + recommendation_bundle" where
  "get_personalized_recommendations db user_id skill_type user_metrics num_recommendations =
     (let user_history = take 10 (filter (\<lambda>a. a = (user_id, skill_type)) (user_analyses db));
          st0 = get_available_experts db skill_type;
          available_experts = [0..<length st0]
      in case find_similar_level_experts st0 available_experts user_metrics of
           Inl e \<Rightarrow> Inl e
         | Inr (st1, similar_level) \<Rightarrow>
      (case find_aspirational_experts st1 available_experts user_metrics of
           Inl e \<Rightarrow> Inl e
         | Inr (st2, aspirational) \<Rightarrow>
      (case find_progressive_experts st2 available_experts user_metrics of
           Inl e \<Rightarrow> Inl e
         | Inr (st3, progressive) \<Rightarrow>
      (case find_improvement_focused_experts st3 available_experts user_metrics of
           Inl e \<Rightarrow> Inl e
         | Inr (st4, improvement_focused) \<Rightarrow>
      (let (st5, trending) = get_trending_experts db skill_type st4;
           (st6, final_recommendations) =
              rank_and_combine_recommendations st5
                [(''similar_level'', similar_level), (''aspirational'', aspirational),
                 (''progressive'', progressive), (''improvement_focused'', improvement_focused),
                 (''trending'', trending)]
                num_recommendations
       in case attach_paths st6 final_recommendations user_metrics of
            Inl e \<Rightarrow> Inl e
          | Inr recs \<Rightarrow>
              (case assess_user_level user_metrics of
                 Inl e \<Rightarrow> Inl e
               | Inr level \<Rightarrow>
                   Inr \<lparr>rb_recommendations = recs,
                        user_current_level = level,
                        rb_skill_type = skill_type,
                        experience_level = level,
                        practice_frequency = length user_history,
                        improvement_trend =
                          (if length user_history > 1 then ''improving'' else ''new_user''),
                        focus_areas = map fst (filter (\<lambda>p. snd p < 0.6) user_metrics)\<rparr>))))))"

subsection \<open>Example inputs\<close>

definition example_candidate :: rec_expert where
  "example_candidate =
     \<lparr>expert_id = 1, rx_name = ''Ada'', rx_domain = ''Public Speaking'',
      pattern_data = [(''eye_contact'', 0.875), (''speaking_pace'', 0.75), (''pause_timing'', 1),
                      (''voice_modulation'', 0.625), (''timing'', 0.75), (''dynamics'', 0.875)],
      recommendation_score = Some 1, strategy = Some ''similar_level'',
      strategy_weight = Some 0.1, final_score = Some 0.1\<rparr>"

definition example_user :: "real pydict" where
  "example_user = [(''voice_modulation'', 0.5625), (''eye_contact'', 0.5), (''speaking_pace'', 0.5),
                   (''pause_timing'', 0.25), (''timing'', 0.625), (''gesture_coordination'', 0.125)]"

definition peer_db :: database where
  "peer_db =
     \<lparr>experts =
        [\<lparr>e_id = 1, e_name = ''Ada'', e_domain = ''Public Speaking'', e_biography = [],
          e_achievements = [], e_pattern_data = [(''eye_contact'', 0.5)]\<rparr>],
      expert_patterns =
        [\<lparr>p_expert_id = 1, p_skill_type = ''Public Speaking'',
          p_pattern_data = [(''eye_contact'', 0.5)], p_confidence_score = 1\<rparr>],
      recent_comparisons = [], user_analyses = []\<rparr>"


section \<open>The comparator in double precision\<close>

text \<open>
  Three properties of the comparator (the bounds of the overall score, its symmetry, the
  figures of the worked scenario) turn on how its results are rounded. For them the
  comparator is modelled once more with every arithmetic result rounded.
\<close>

definition skill_weights_f64 :: "(string \<times> real pydict) list" where
  \<comment> \<open>The weight table as stored: every decimal literal is a double.\<close>
  "skill_weights_f64 = map (\<lambda>(s, ws). (s, map (\<lambda>(k, w). (k, fl w)) ws)) skill_weights"

text \<open>
  The loop of \<^verbatim>\<open>compare_to_expert\<close> again, each subtraction, multiplication and addition
  rounded; \<^verbatim>\<open>abs\<close> is exact. The default 0.5 is a double, the default 0.1 is not.
\<close>

fun compare_loop_f64 ::
  "real pydict \<Rightarrow> real pydict \<Rightarrow> real pydict \<Rightarrow> real \<times> metric_comparison pydict
     \<Rightarrow> real \<times> metric_comparison pydict" where
  "compare_loop_f64 weights expert_pattern [] acc = acc"
| "compare_loop_f64 weights expert_pattern ((metric, uv) # rest) (total_score, metric_comparisons) =
     (let ev = dict_get expert_pattern metric 0.5;
          w = dict_get weights metric (fl 0.1);
          difference = \<bar>fl (uv - ev)\<bar>;
          sim = fl (1 - difference);
          ws = fl (sim * w)
      in compare_loop_f64 weights expert_pattern rest
           (fl (total_score + ws),
            AList.update metric
              \<lparr>user_value = uv, expert_value = ev, similarity = sim, weight = w,
               weighted_score = ws, gap = fl (ev - uv)\<rparr> metric_comparisons))"

definition effective_weights_f64 :: "real pydict \<Rightarrow> string \<Rightarrow> real pydict" where
  "effective_weights_f64 user_metrics skill_type =
     (let weights = dict_get skill_weights_f64 skill_type []
      in if weights = []
         then map (\<lambda>key. (key, fl (1 / real (length user_metrics)))) (map fst user_metrics)
         else weights)"

definition compare_to_expert_f64 ::
  "real pydict \<Rightarrow> real pydict \<Rightarrow> string \<Rightarrow> real \<times> comparison_data" where
  "compare_to_expert_f64 user_metrics expert_pattern skill_type =
     (let weights = effective_weights_f64 user_metrics skill_type;
          (total_score, metric_comparisons) =
             compare_loop_f64 weights expert_pattern user_metrics (0, [])
      in (total_score,
          \<lparr>overall_similarity = total_score, metric_breakdown = metric_comparisons,
           cd_skill_type = skill_type\<rparr>))"

text \<open>Example vectors for the comparator.\<close>

definition nine_metrics :: "real pydict" where
  "nine_metrics = [(''m1'', 1), (''m2'', 1), (''m3'', 1), (''m4'', 1), (''m5'', 1), (''m6'', 1),
                   (''m7'', 1), (''m8'', 1), (''m9'', 1)]"


definition abc_metrics :: "real pydict" where
  "abc_metrics = [(''a'', fl 0.1), (''b'', fl 0.7), (''c'', fl 0.3)]"

definition cba_ones :: "real pydict" where
  "cba_ones = [(''c'', 1), (''b'', 1), (''a'', 1)]"
section \<open>Facts about dictionaries and the weight table\<close>

lemma skill_weights_cases:
  "dict_get skill_weights s [] = [] \<or>
   (let ws = dict_get skill_weights s [] in
      distinct (map fst ws) \<and> sum_list (map snd ws) = 1 \<and> (\<forall>p\<in>set ws. 0 \<le> snd p))"
  by (simp add: dict_get_def skill_weights_def Let_def)

lemma dict_get_distinct:
  "distinct (map fst T) \<Longrightarrow> p \<in> set T \<Longrightarrow> dict_get T (fst p) d = snd p"
  by (cases p) (simp add: dict_get_def map_of_is_SomeI)

lemma in_unit_range_get:
  "in_unit_range ep \<Longrightarrow> 0 \<le> dict_get ep k 0.5 \<and> dict_get ep k 0.5 \<le> 1"
proof -
  assume a: "in_unit_range ep"
  show ?thesis
  proof (cases "map_of ep k")
    case None
    then show ?thesis by (simp add: dict_get_def)
  next
    case (Some v)
    then have "(k, v) \<in> set ep" by (rule map_of_SomeD)
    with a have "0 \<le> v \<and> v \<le> 1" by (auto simp: in_unit_range_def list_all_iff)
    with Some show ?thesis by (simp add: dict_get_def)
  qed
qed

section \<open>Properties of the expert matcher\<close>

lemma py_sorted_desc_sorted:
  "sorted_wrt (\<lambda>a b. key b \<le> key a) (py_sorted_desc key xs)"
proof -
  have "sorted (map key (sort_key key (rev xs)))" by (rule sorted_sort_key)
  then have "sorted_wrt (\<lambda>a b. key a \<le> key b) (sort_key key (rev xs))"
    by (simp add: sorted_map)
  then show ?thesis
    unfolding py_sorted_desc_def by (simp add: sorted_wrt_rev)
qed

lemma py_sorted_desc_stable:
  "filter (\<lambda>y. key y = v) (py_sorted_desc key xs) = filter (\<lambda>y. key y = v) xs"
proof -
  have "filter (\<lambda>y. key y = v) (sort_key key (rev xs)) = filter (\<lambda>y. key y = v) (rev xs)"
    by (rule sort_key_stable)
  then show ?thesis
    unfolding py_sorted_desc_def by (simp add: rev_filter[symmetric])
qed


text \<open>
  Claim C6. For a non-negative \<open>top_n\<close> the matcher returns a list that is sorted by
  descending similarity score, has at most \<open>top_n\<close> entries, and keeps matches of equal
  score in the order in which the patterns were iterated: the matches of any one score in
  the result are an initial segment of the matches of that score in iteration order.
\<close>

theorem find_best_expert_matches_ranked:
  assumes "0 \<le> top_n"
  shows "sorted_wrt (\<lambda>a b. similarity_score b \<le> similarity_score a)
           (find_best_expert_matches db um s top_n)
       \<and> length (find_best_expert_matches db um s top_n) \<le> nat top_n
       \<and> (\<forall>v. prefix (filter (\<lambda>m. similarity_score m = v) (find_best_expert_matches db um s top_n))
                       (filter (\<lambda>m. similarity_score m = v)
                          (collect_matches db um s (query_patterns db s))))"
proof -
  let ?all = "collect_matches db um s (query_patterns db s)"
  let ?S = "py_sorted_desc similarity_score ?all"
  have r: "find_best_expert_matches db um s top_n = take (nat top_n) ?S"
    using assms by (simp add: find_best_expert_matches_def py_slice_to_def)
  have 1: "sorted_wrt (\<lambda>a b. similarity_score b \<le> similarity_score a) (take (nat top_n) ?S)"
    by (rule sorted_wrt_take) (rule py_sorted_desc_sorted)
  have 2: "length (take (nat top_n) ?S) \<le> nat top_n" by simp
  have 3: "prefix (filter (\<lambda>m. similarity_score m = v) (take (nat top_n) ?S))
                  (filter (\<lambda>m. similarity_score m = v) ?all)" for v
  proof -
    have "prefix (filter (\<lambda>m. similarity_score m = v) (take (nat top_n) ?S))
                 (filter (\<lambda>m. similarity_score m = v) ?S)"
      by (rule filter_mono_prefix) (rule take_is_prefix)
    then show ?thesis by (simp only: py_sorted_desc_stable)
  qed
  show ?thesis unfolding r using 1 2 3 by blast
qed


lemma example_db_best_matches:
  "map m_expert_id (find_best_expert_matches example_db [(''eye_contact'', 0.9)] ''Public Speaking'' 2) = [2, 1]"
  by (simp add: find_best_expert_matches_def example_db_def query_patterns_def query_expert_def
        compare_to_expert_def effective_weights_def dict_get_def skill_weights_def
        py_sorted_desc_def py_slice_to_def Let_def numeral_2_eq_2)

theorem find_best_expert_matches_ranked_witness:
  "(0::int) \<le> 2
   \<and> map m_expert_id (find_best_expert_matches example_db [(''eye_contact'', 0.9)] ''Public Speaking'' 2) = [2, 1]
   \<and> sorted_wrt (\<lambda>a b. similarity_score b \<le> similarity_score a)
           (find_best_expert_matches example_db [(''eye_contact'', 0.9)] ''Public Speaking'' 2)
   \<and> length (find_best_expert_matches example_db [(''eye_contact'', 0.9)] ''Public Speaking'' 2) \<le> nat 2"
proof -
  have h: "(0::int) \<le> 2" by simp
  show ?thesis
    using find_best_expert_matches_ranked[OF h, of example_db "[(''eye_contact'', 0.9)]" "''Public Speaking''"]
      example_db_best_matches h by blast
qed

section \<open>Properties of the feedback generator\<close>
















section \<open>Properties of the real-time classifier\<close>

lemma round_half_even_lower: "of_int n \<le> y \<Longrightarrow> n \<le> round_half_even y"
proof -
  assume "of_int n \<le> y"
  then have "n \<le> \<lfloor>y\<rfloor>" by (simp add: le_floor_iff)
  then show ?thesis by (auto simp: round_half_even_def Let_def)
qed

lemma round_half_even_upper: "y \<le> of_int n \<Longrightarrow> round_half_even y \<le> n"
proof (cases "y = of_int n")
  case True
  then show ?thesis by (simp add: round_half_even_def Let_def)
next
  case False
  assume "y \<le> of_int n"
  with False have "y < of_int n" by simp
  then have "\<lfloor>y\<rfloor> < n" by (simp add: floor_less_iff)
  then show ?thesis by (auto simp: round_half_even_def Let_def)
qed

lemma py_round_1_bounds:
  assumes "0 \<le> x" "x \<le> 100"
  shows "0 \<le> py_round x 1 \<and> py_round x 1 \<le> 100"
proof -
  have "of_int 0 \<le> x * 10" using assms by simp
  then have lo: "0 \<le> round_half_even (x * 10)" by (rule round_half_even_lower)
  have "x * 10 \<le> of_int 1000" using assms by simp
  then have hi: "round_half_even (x * 10) \<le> 1000" by (rule round_half_even_upper)
  from lo hi have "0 \<le> real_of_int (round_half_even (x * 10)) / 10
     \<and> real_of_int (round_half_even (x * 10)) / 10 \<le> 100"
    by simp
  then show ?thesis by (simp add: py_round_def)
qed

text \<open>
  Claim C5. Whatever the metric list and the skill type, also for values far above 100 or
  below 0, the overall score of the real-time classifier lies in \<open>[0, 100]\<close>: the weighted
  average is clamped to that interval before it is rounded to one decimal.
\<close>

theorem calculate_overall_score_range:
  "0 \<le> calculate_overall_score metrics skill_type \<and> calculate_overall_score metrics skill_type \<le> 100"
proof (cases "metrics = []")
  case True
  then show ?thesis by (simp add: calculate_overall_score_def)
next
  case False
  obtain a b where ab: "score_loop skill_type metrics (0, 0) = (a, b)" by (cases "score_loop skill_type metrics (0, 0)")
  let ?o = "if b > 0 then a / b else 50"
  have "0 \<le> min (max ?o 0) 100" "min (max ?o 0) 100 \<le> 100" by simp_all
  then have "0 \<le> py_round (min (max ?o 0) 100) 1 \<and> py_round (min (max ?o 0) 100) 1 \<le> 100"
    by (rule py_round_1_bounds)
  moreover have "calculate_overall_score metrics skill_type = py_round (min (max ?o 0) 100) 1"
    using False ab by (simp add: calculate_overall_score_def Let_def)
  ultimately show ?thesis by (simp only:)
qed


lemma has_template_iff: "has_template name \<longleftrightarrow> name \<in> fst ` set suggestion_templates"
  unfolding has_template_def dict_get_def suggestion_templates_def
  by (simp del: One_nat_def)

lemma suggestion_loop_types:
  "map suggestion_type (suggestion_loop ms acc) =
     map suggestion_type acc
       @ map metric_name (filter (\<lambda>m. has_template (metric_name m) \<and> 0 < get_delta m) ms)"
proof (induction ms arbitrary: acc)
  case Nil
  then show ?case by simp
next
  case (Cons m ms)
  show ?case
    by (cases "dict_get suggestion_templates (metric_name m) []")
       (simp_all add: Cons.IH has_template_def)
qed

lemma suggestion_loop_origin:
  "sg \<in> set (suggestion_loop ms acc) \<Longrightarrow>
   sg \<in> set acc \<or>
   (\<exists>m\<in>set ms. has_template (metric_name m) \<and> 0 < get_delta m
        \<and> suggestion_type sg = metric_name m \<and> metric_impact sg = get_delta m)"
proof (induction ms arbitrary: acc)
  case Nil
  then show ?case by simp
next
  case (Cons m ms)
  show ?case
  proof (cases "dict_get suggestion_templates (metric_name m) []")
    case Nil
    with Cons.prems have "sg \<in> set (suggestion_loop ms acc)" by simp
    from Cons.IH[OF this] show ?thesis by auto
  next
    case (Cons t ts)
    note tmpl = this
    show ?thesis
    proof (cases "0 < get_delta m")
      case False
      with tmpl Cons.prems have "sg \<in> set (suggestion_loop ms acc)" by simp
      from Cons.IH[OF this] show ?thesis by auto
    next
      case True
      have ht: "has_template (metric_name m)" using tmpl by (simp add: has_template_def)
      let ?new = "\<lparr>suggestion_type = metric_name m,
                    content =
                      \<lparr>c_template = template t,
                       c_current_value = metric_value m,
                       c_target_value =
                         (case target_value m of None \<Rightarrow> metric_value m * 1.2 | Some v \<Rightarrow> v),
                       c_improvement_potential = py_round (get_delta m) 1\<rparr>,
                    priority = determine_priority m,
                    sg_category = t_category t,
                    confidence_score = calculate_confidence_score m,
                    metric_impact = get_delta m\<rparr>"
      from tmpl True Cons.prems have "sg \<in> set (suggestion_loop ms (acc @ [?new]))" by simp
      from Cons.IH[OF this] show ?thesis using ht True by auto
    qed
  qed
qed

text \<open>
  Claim C10. A pass emits at most five suggestions. The suggestions are, in order, those of
  the five metrics with the largest improvement delta that have a registered template and
  a strictly positive delta; so every suggestion belongs to a metric with a template and a
  positive delta, and a metric without a template yields none even among the top five.
\<close>

theorem suggestions_at_most_five_with_template:
  "length (generate_improvement_suggestions metrics skill_type) \<le> 5
   \<and> map suggestion_type (generate_improvement_suggestions metrics skill_type)
       = map metric_name
           (filter (\<lambda>m. has_template (metric_name m) \<and> 0 < get_delta m)
              (take 5 (py_sorted_desc get_delta metrics)))
   \<and> (\<forall>sg\<in>set (generate_improvement_suggestions metrics skill_type).
         has_template (suggestion_type sg)
         \<and> (\<exists>m\<in>set metrics. metric_name m = suggestion_type sg \<and> 0 < get_delta m
                \<and> metric_impact sg = get_delta m))"
proof -
  let ?top = "take 5 (py_sorted_desc get_delta metrics)"
  have r: "generate_improvement_suggestions metrics skill_type = suggestion_loop ?top []"
    by (simp add: generate_improvement_suggestions_def py_slice_to_def Let_def)
  have types: "map suggestion_type (suggestion_loop ?top [])
       = map metric_name (filter (\<lambda>m. has_template (metric_name m) \<and> 0 < get_delta m) ?top)"
    by (simp add: suggestion_loop_types)
  have "length (suggestion_loop ?top []) = length (map suggestion_type (suggestion_loop ?top []))"
    by simp
  also have "\<dots> \<le> length ?top" unfolding types length_map by (rule length_filter_le)
  also have "\<dots> \<le> 5" by simp
  finally have len: "length (suggestion_loop ?top []) \<le> 5" .
  have sub: "set ?top \<subseteq> set metrics"
  proof -
    have "set ?top \<subseteq> set (py_sorted_desc get_delta metrics)" by (rule set_take_subset)
    then show ?thesis by (simp add: py_sorted_desc_def)
  qed
  have orig: "has_template (suggestion_type sg)
         \<and> (\<exists>m\<in>set metrics. metric_name m = suggestion_type sg \<and> 0 < get_delta m
                \<and> metric_impact sg = get_delta m)"
    if "sg \<in> set (suggestion_loop ?top [])" for sg
  proof -
    from suggestion_loop_origin[OF that] obtain m where "m \<in> set ?top"
      "has_template (metric_name m)" "0 < get_delta m" "suggestion_type sg = metric_name m"
      "metric_impact sg = get_delta m" by auto
    with sub show ?thesis by auto
  qed
  show ?thesis unfolding r using len types orig by blast
qed


lemma example_metrics_top:
  "map metric_name (take 5 (py_sorted_desc get_delta example_metrics))
     = [''volume_consistency'', ''eye_contact'', ''head_movement'', ''posture_stability'',
        ''technique_score'']"
  by (simp add: example_metrics_def py_sorted_desc_def get_delta_def)

lemma example_metrics_suggestions:
  "map metric_name
     (filter (\<lambda>m. has_template (metric_name m) \<and> 0 < get_delta m)
        (take 5 (py_sorted_desc get_delta example_metrics)))
   = [''eye_contact'', ''posture_stability'', ''technique_score'']"
  by (simp add: example_metrics_def py_sorted_desc_def get_delta_def has_template_iff
        suggestion_templates_def)

theorem suggestions_at_most_five_with_template_witness:
  "map suggestion_type (generate_improvement_suggestions example_metrics ''Public Speaking'')
     = [''eye_contact'', ''posture_stability'', ''technique_score'']
   \<and> length (generate_improvement_suggestions example_metrics ''Public Speaking'') \<le> 5
   \<and> has_template ''eye_contact'' \<and> has_template ''posture_stability''
   \<and> has_template ''technique_score'' \<and> \<not> has_template ''volume_consistency''"
proof -
  have t: "has_template ''eye_contact''" "has_template ''posture_stability''"
    "has_template ''technique_score''" "\<not> has_template ''volume_consistency''"
    by (simp_all add: has_template_iff suggestion_templates_def)
  show ?thesis
    using suggestions_at_most_five_with_template[of example_metrics "''Public Speaking''"]
      example_metrics_suggestions t
    by simp
qed

section \<open>Properties of double-precision rounding\<close>

lemma scale_dn_numeral:
  "scale_dn (numeral k) a s = (if a < 1 then scale_dn (pred_numeral k) (2 * a) (s / 2) else s)"
  by (simp add: numeral_eq_Suc)

lemma scale_up_numeral:
  "scale_up (numeral k) a s = (if 2 \<le> a then scale_up (pred_numeral k) (a / 2) (2 * s) else s)"
  by (simp add: numeral_eq_Suc)

lemmas fl_eval = fl_def ulp_def binade_def round_half_even_def Let_def scale_dn_numeral scale_up_numeral

lemma scale_dn_pos: "0 < s \<Longrightarrow> 0 < scale_dn n a s"
  by (induction n arbitrary: a s) simp_all

lemma scale_up_pos: "0 < s \<Longrightarrow> 0 < scale_up n a s"
  by (induction n arbitrary: a s) simp_all

lemma ulp_pos: "0 < ulp a"
  by (simp add: ulp_def binade_def scale_dn_pos scale_up_pos)

lemma fl_minus: "fl (- x) = - fl x"
  by (simp add: fl_def sgn_minus)

lemma fl_zero: "fl 0 = 0"
  by (simp add: fl_def)

lemma fl_nonneg: "0 \<le> x \<Longrightarrow> 0 \<le> fl x"
proof -
  assume x: "0 \<le> x"
  have "0 \<le> \<bar>x\<bar> / ulp \<bar>x\<bar>" using ulp_pos[of "\<bar>x\<bar>"] by simp
  then have "of_int 0 \<le> \<bar>x\<bar> / ulp \<bar>x\<bar>" by simp
  then have "0 \<le> round_half_even (\<bar>x\<bar> / ulp \<bar>x\<bar>)" by (rule round_half_even_lower)
  then have "0 \<le> of_int (round_half_even (\<bar>x\<bar> / ulp \<bar>x\<bar>)) * ulp \<bar>x\<bar>"
    using ulp_pos[of "\<bar>x\<bar>"] by simp
  moreover have "0 \<le> sgn x" using x by (simp add: sgn_if)
  ultimately show ?thesis unfolding fl_def by (rule mult_nonneg_nonneg[rotated])
qed

lemma fl_abs: "\<bar>fl x\<bar> = fl \<bar>x\<bar>"
proof (cases "0 \<le> x")
  case True
  then show ?thesis using fl_nonneg[of x] by simp
next
  case False
  then have "0 \<le> - x" by simp
  then have "0 \<le> fl (- x)" by (rule fl_nonneg)
  then have "fl x \<le> 0" by (simp add: fl_minus)
  with False show ?thesis by (simp add: fl_minus)
qed

lemma scale_dn_le: "0 < s \<Longrightarrow> scale_dn n a s \<le> s"
proof (induction n arbitrary: a s)
  case 0
  then show ?case by simp
next
  case (Suc n)
  have "scale_dn n (2 * a) (s / 2) \<le> s / 2" using Suc.prems by (intro Suc.IH) simp
  then show ?case using Suc.prems by simp
qed

lemma scale_dn_bound: "0 < s \<Longrightarrow> a < 2 \<Longrightarrow> a * s < 2 * scale_dn n a s"
proof (induction n arbitrary: a s)
  case 0
  then show ?case by simp
next
  case (Suc n)
  show ?case
  proof (cases "a < 1")
    case True
    have "(2 * a) * (s / 2) < 2 * scale_dn n (2 * a) (s / 2)"
      using Suc.prems True by (intro Suc.IH) simp_all
    then show ?thesis using True by simp
  next
    case False
    then show ?thesis using Suc.prems by simp
  qed
qed

lemma fl_one: "fl 1 = 1"
  by (simp add: fl_eval)

lemma fl_le_one:
  assumes "0 \<le> x" "x \<le> 1"
  shows "fl x \<le> 1"
proof -
  consider "x = 0" | "x = 1" | "0 < x" "x < 1" using assms by linarith
  then show ?thesis
  proof cases
    case 1
    then show ?thesis by (simp add: fl_zero)
  next
    case 2
    then show ?thesis by (simp add: fl_one)
  next
    case 3
    let ?B = "scale_dn 1022 x 1"
    have B: "binade x = ?B" using 3 by (simp add: binade_def)
    have "?B = scale_dn (Suc 1021) x 1" by simp
    also have "\<dots> = scale_dn 1021 (2 * x) (1 / 2)" using 3 by (simp only: scale_dn.simps if_True)
    also have "\<dots> \<le> 1 / 2" by (rule scale_dn_le) simp
    finally have Bhalf: "?B \<le> 1 / 2" .
    have Bpos: "0 < ?B" by (rule scale_dn_pos) simp
    have "x * 1 < 2 * ?B" using 3 by (intro scale_dn_bound) simp_all
    then have xB: "x < 2 * ?B" by simp
    have u: "ulp x = ?B / 2 ^ 52" by (simp add: ulp_def B)
    have q: "x / ulp x = x * 2 ^ 52 / ?B" by (simp add: u)
    have "x * 2 ^ 52 < 2 ^ 53 * ?B" using xB by simp
    then have "x * 2 ^ 52 / ?B < 2 ^ 53" using Bpos by (simp only: pos_divide_less_eq)
    then have "x / ulp x \<le> of_int (2 ^ 53)" unfolding q by simp
    then have r: "round_half_even (x / ulp x) \<le> 2 ^ 53" by (rule round_half_even_upper)
    have "fl x = of_int (round_half_even (x / ulp x)) * ulp x"
      using 3 by (simp add: fl_def)
    also have "\<dots> \<le> of_int (2 ^ 53) * ulp x"
      using r ulp_pos[of x] by (intro mult_right_mono) simp_all
    also have "\<dots> = 2 * ?B" by (simp add: u)
    also have "\<dots> \<le> 1" using Bhalf by simp
    finally show ?thesis .
  qed
qed

lemma fl_abs_le_one: "\<bar>x\<bar> \<le> 1 \<Longrightarrow> \<bar>fl x\<bar> \<le> 1"
  by (simp only: fl_abs) (rule fl_le_one, simp_all)

section \<open>Properties of the recommender\<close>

lemma py_sorted_desc_set: "set (py_sorted_desc key xs) = set xs"
  by (simp add: py_sorted_desc_def)

lemma find_gaps_sound:
  "g \<in> set (find_gaps em um) \<Longrightarrow>
     fl 0.1 < g_gap g \<and> g_gap g = fl (g_target g - g_current g)
     \<and> (g_metric g, g_target g) \<in> set em \<and> map_of um (g_metric g) = Some (g_current g)"
proof (induction em um rule: find_gaps.induct)
  case (1 um)
  then show ?case by simp
next
  case (2 metric ev rest um)
  show ?case
  proof (cases "map_of um metric")
    case None
    with 2 show ?thesis by auto
  next
    case (Some uv)
    show ?thesis
    proof (cases "fl (ev - uv) > fl 0.1")
      case True
      with Some 2(2)[OF Some True] 2(4) show ?thesis by auto
    next
      case False
      with Some 2(3)[OF Some False] 2(4) show ?thesis by auto
    qed
  qed
qed

lemma make_steps_needed: "map improvement_needed (make_steps i gs) = map g_gap gs"
  by (induction gs arbitrary: i) simp_all

lemma find_gaps_complete:
  "(m, ev) \<in> set em \<Longrightarrow> map_of um m = Some uv \<Longrightarrow> fl 0.1 < fl (ev - uv) \<Longrightarrow>
   \<lparr>g_metric = m, g_gap = fl (ev - uv), g_current = uv, g_target = ev\<rparr> \<in> set (find_gaps em um)"
proof (induction em um rule: find_gaps.induct)
  case (1 um)
  then show ?case by simp
next
  case (2 metric ev' rest um)
  show ?case
  proof (cases "(m, ev) = (metric, ev')")
    case True
    with "2.prems" show ?thesis by simp
  next
    case False
    with "2.prems"(1) have mem: "(m, ev) \<in> set rest" by auto
    show ?thesis
    proof (cases "map_of um metric")
      case None
      with "2.IH"(1)[OF None mem "2.prems"(2,3)] show ?thesis by simp
    next
      case (Some uv')
      show ?thesis
      proof (cases "fl (ev' - uv') > fl 0.1")
        case True
        with Some "2.IH"(2)[OF Some True mem "2.prems"(2,3)] show ?thesis by simp
      next
        case False
        with Some "2.IH"(3)[OF Some False mem "2.prems"(2,3)] show ?thesis by simp
      qed
    qed
  qed
qed

lemma make_steps_origin:
  "s \<in> set (make_steps i gs) \<Longrightarrow>
   \<exists>g\<in>set gs. focus_area s = py_title (replace_underscore (g_metric g))
      \<and> improvement_needed s = g_gap g \<and> current_level s = g_current g
      \<and> target_level s = g_target g
      \<and> estimated_weeks s = max 2 (py_int (fl (g_gap g * 8)))
      \<and> ls_priority s = (if g_gap g > fl 0.3 then ''high'' else ''medium'')"
proof (induction gs arbitrary: i)
  case Nil
  then show ?case by simp
next
  case (Cons a gs)
  from Cons.prems consider
      (here) "s = \<lparr>step = i + 1,
                   focus_area = py_title (replace_underscore (g_metric a)),
                   current_level = g_current a, target_level = g_target a,
                   improvement_needed = g_gap a,
                   ls_priority = (if g_gap a > fl 0.3 then ''high'' else ''medium''),
                   estimated_weeks = max 2 (py_int (fl (g_gap a * 8)))\<rparr>"
    | (later) "s \<in> set (make_steps (i + 1) gs)"
    by auto
  then show ?case
  proof cases
    case here
    have "focus_area s = py_title (replace_underscore (g_metric a))
      \<and> improvement_needed s = g_gap a \<and> current_level s = g_current a
      \<and> target_level s = g_target a
      \<and> estimated_weeks s = max 2 (py_int (fl (g_gap a * 8)))
      \<and> ls_priority s = (if g_gap a > fl 0.3 then ''high'' else ''medium'')"
      unfolding here by (simp del: One_nat_def)
    then show ?thesis by (intro bexI[of _ a]) simp_all
  next
    case later
    from Cons.IH[OF later] show ?thesis by auto
  qed
qed

lemma make_steps_complete:
  "g \<in> set gs \<Longrightarrow>
   \<exists>s\<in>set (make_steps i gs). focus_area s = py_title (replace_underscore (g_metric g))
      \<and> current_level s = g_current g \<and> target_level s = g_target g
      \<and> improvement_needed s = g_gap g"
proof (induction gs arbitrary: i)
  case Nil
  then show ?case by simp
next
  case (Cons a gs)
  show ?case
  proof (cases "g = a")
    case True
    then show ?thesis by (simp del: One_nat_def)
  next
    case False
    with Cons.prems have "g \<in> set gs" by simp
    from Cons.IH[OF this, of "i + 1"] show ?thesis by auto
  qed
qed

lemma make_steps_length: "length (make_steps i gs) = length gs"
  by (induction gs arbitrary: i) simp_all

lemma top_of_sorted:
  assumes srt: "sorted_wrt (\<lambda>a b. key b \<le> key a) xs" and g: "g \<in> set xs"
  shows "g \<in> set (take n xs) \<or> (length (take n xs) = n \<and> (\<forall>x\<in>set (take n xs). key g \<le> key x))"
proof (cases "g \<in> set (take n xs)")
  case True
  then show ?thesis by simp
next
  case False
  have split: "xs = take n xs @ drop n xs" by simp
  with g False have gd: "g \<in> set (drop n xs)" by (metis Un_iff set_append)
  then have "drop n xs \<noteq> []" by auto
  then have len: "length (take n xs) = n" by simp
  have "sorted_wrt (\<lambda>a b. key b \<le> key a) (take n xs @ drop n xs)" using srt by simp
  then have "\<forall>x\<in>set (take n xs). \<forall>y\<in>set (drop n xs). key y \<le> key x"
    by (simp only: sorted_wrt_append) blast
  with gd len show ?thesis by blast
qed


lemma py_int_nonneg: "0 \<le> x \<Longrightarrow> py_int x = \<lfloor>x\<rfloor>"
  by (simp add: py_int_def)

text \<open>
  Claim C8, as amended. The learning path of a candidate has at most three steps, in
  descending order of gap. Every step is the gap of one metric (expert value minus user
  value, as the double the subtraction yields, above 0.1) and every such gap that is not
  a step is no larger than any of the three steps, so the steps are the top three gaps.
  Each step has the effort estimate \<open>max(2, int(gap * 8))\<close> weeks, where \<^verbatim>\<open>int\<close> cuts
  \<open>gap * 8\<close> down to a whole number, and priority "high" when its gap exceeds 0.3 and
  "medium" otherwise; the total is the sum of the steps' estimates. A metric that the
  user vector does not have has no user value and yields no gap.
\<close>

theorem learning_path_steps:
  "length (learning_steps (generate_learning_path rx um)) \<le> 3
   \<and> sorted_wrt (\<lambda>a b. improvement_needed b \<le> improvement_needed a)
        (learning_steps (generate_learning_path rx um))
   \<and> (\<forall>s\<in>set (learning_steps (generate_learning_path rx um)).
         (\<exists>m. (m, target_level s) \<in> set (pattern_data rx)
               \<and> map_of um m = Some (current_level s)
               \<and> focus_area s = py_title (replace_underscore m))
         \<and> improvement_needed s = fl (target_level s - current_level s)
         \<and> fl 0.1 < improvement_needed s
         \<and> estimated_weeks s = max 2 \<lfloor>fl (improvement_needed s * 8)\<rfloor>
         \<and> ls_priority s = (if improvement_needed s > fl 0.3 then ''high'' else ''medium''))
   \<and> (\<forall>m ev uv. (m, ev) \<in> set (pattern_data rx) \<and> map_of um m = Some uv \<and> fl 0.1 < fl (ev - uv) \<longrightarrow>
         (\<exists>s\<in>set (learning_steps (generate_learning_path rx um)).
             focus_area s = py_title (replace_underscore m) \<and> current_level s = uv
             \<and> target_level s = ev \<and> improvement_needed s = fl (ev - uv))
         \<or> (length (learning_steps (generate_learning_path rx um)) = 3
             \<and> (\<forall>s\<in>set (learning_steps (generate_learning_path rx um)).
                   fl (ev - uv) \<le> improvement_needed s)))
   \<and> total_estimated_weeks (generate_learning_path rx um)
       = sum_list (map estimated_weeks (learning_steps (generate_learning_path rx um)))"
proof -
  let ?gaps = "find_gaps (pattern_data rx) um"
  let ?sorted = "py_sorted_desc g_gap ?gaps"
  let ?top = "take 3 ?sorted"
  have steps: "learning_steps (generate_learning_path rx um) = make_steps 0 ?top"
    by (simp add: generate_learning_path_def py_slice_to_def Let_def)
  have total: "total_estimated_weeks (generate_learning_path rx um)
       = sum_list (map estimated_weeks (make_steps 0 ?top))"
    by (simp add: generate_learning_path_def py_slice_to_def Let_def)
  have len_eq: "length (make_steps 0 ?top) = length ?top" by (rule make_steps_length)
  then have len: "length (make_steps 0 ?top) \<le> 3" by simp
  have needed: "map improvement_needed (make_steps 0 ?top) = map g_gap ?top"
    by (rule make_steps_needed)
  have sorted_all: "sorted_wrt (\<lambda>a b. g_gap b \<le> g_gap a) ?sorted"
    by (rule py_sorted_desc_sorted)
  then have "sorted_wrt (\<lambda>a b. g_gap b \<le> g_gap a) ?top" by (rule sorted_wrt_take)
  then have "sorted_wrt (\<lambda>x y. y \<le> x) (map g_gap ?top)"
    by (simp add: sorted_wrt_map)
  then have "sorted_wrt (\<lambda>x y. y \<le> x) (map improvement_needed (make_steps 0 ?top))"
    by (simp only: needed)
  then have srt: "sorted_wrt (\<lambda>a b. improvement_needed b \<le> improvement_needed a) (make_steps 0 ?top)"
    by (simp add: sorted_wrt_map)
  have each: "(\<exists>m. (m, target_level s) \<in> set (pattern_data rx)
               \<and> map_of um m = Some (current_level s)
               \<and> focus_area s = py_title (replace_underscore m))
         \<and> improvement_needed s = fl (target_level s - current_level s)
         \<and> fl 0.1 < improvement_needed s
         \<and> estimated_weeks s = max 2 \<lfloor>fl (improvement_needed s * 8)\<rfloor>
         \<and> ls_priority s = (if improvement_needed s > fl 0.3 then ''high'' else ''medium'')"
    if "s \<in> set (make_steps 0 ?top)" for s
  proof -
    from make_steps_origin[OF that] obtain g where g: "g \<in> set ?top"
      and eqs: "focus_area s = py_title (replace_underscore (g_metric g))"
        "improvement_needed s = g_gap g" "current_level s = g_current g"
        "target_level s = g_target g" "estimated_weeks s = max 2 (py_int (fl (g_gap g * 8)))"
        "ls_priority s = (if g_gap g > fl 0.3 then ''high'' else ''medium'')"
      by blast
    from g have "g \<in> set ?sorted" by (rule in_set_takeD)
    then have "g \<in> set ?gaps" by (simp add: py_sorted_desc_set)
    from find_gaps_sound[OF this] have fg: "fl 0.1 < g_gap g" "g_gap g = fl (g_target g - g_current g)"
      "(g_metric g, g_target g) \<in> set (pattern_data rx)" "map_of um (g_metric g) = Some (g_current g)"
      by simp_all
    have "0 \<le> fl (1 / 10)" by (rule fl_nonneg) simp
    then have "0 \<le> g_gap g * 8" using fg(1) by simp
    then have "0 \<le> fl (g_gap g * 8)" by (rule fl_nonneg)
    then have "py_int (fl (g_gap g * 8)) = \<lfloor>fl (g_gap g * 8)\<rfloor>" by (rule py_int_nonneg)
    with eqs fg show ?thesis by auto
  qed
  have top3: "(\<exists>s\<in>set (make_steps 0 ?top).
             focus_area s = py_title (replace_underscore m) \<and> current_level s = uv
             \<and> target_level s = ev \<and> improvement_needed s = fl (ev - uv))
         \<or> (length (make_steps 0 ?top) = 3
             \<and> (\<forall>s\<in>set (make_steps 0 ?top). fl (ev - uv) \<le> improvement_needed s))"
    if q: "(m, ev) \<in> set (pattern_data rx) \<and> map_of um m = Some uv \<and> fl 0.1 < fl (ev - uv)" for m ev uv
  proof -
    let ?g = "\<lparr>g_metric = m, g_gap = fl (ev - uv), g_current = uv, g_target = ev\<rparr>"
    have "?g \<in> set ?gaps" using q by (intro find_gaps_complete) simp_all
    then have "?g \<in> set ?sorted" by (simp add: py_sorted_desc_set)
    from top_of_sorted[OF sorted_all this, of 3]
    consider (picked) "?g \<in> set ?top"
      | (cut) "length ?top = 3" "\<forall>x\<in>set ?top. g_gap ?g \<le> g_gap x" by blast
    then show ?thesis
    proof cases
      case picked
      from make_steps_complete[OF picked, of 0] show ?thesis by auto
    next
      case cut
      have "fl (ev - uv) \<le> improvement_needed s" if "s \<in> set (make_steps 0 ?top)" for s
      proof -
        from make_steps_origin[OF that] obtain x where "x \<in> set ?top"
          "improvement_needed s = g_gap x" by blast
        with cut(2) show ?thesis by auto
      qed
      with cut(1) len_eq show ?thesis by simp
    qed
  qed
  show ?thesis unfolding steps total using len srt each top3 by blast
qed


lemma example_learning_path:
  "map (\<lambda>s. (step s, current_level s, target_level s, improvement_needed s, ls_priority s,
              estimated_weeks s))
       (learning_steps (generate_learning_path example_candidate example_user))
   = [(1, 0.25, 1, 0.75, ''high'', 6), (2, 0.5, 0.875, 0.375, ''high'', 3),
      (3, 0.5, 0.75, 0.25, ''medium'', 2)]"
  by (simp add: generate_learning_path_def example_candidate_def example_user_def fl_eval
        py_sorted_desc_def py_slice_to_def py_int_def)

theorem learning_path_steps_witness:
  "map (\<lambda>s. (step s, current_level s, target_level s, improvement_needed s, ls_priority s,
              estimated_weeks s))
       (learning_steps (generate_learning_path example_candidate example_user))
     = [(1, 0.25, 1, 0.75, ''high'', 6), (2, 0.5, 0.875, 0.375, ''high'', 3),
        (3, 0.5, 0.75, 0.25, ''medium'', 2)]
   \<and> (''timing'', 0.75) \<in> set (pattern_data example_candidate)
   \<and> map_of example_user ''timing'' = Some 0.625 \<and> fl 0.1 < fl (0.75 - 0.625)
   \<and> length (learning_steps (generate_learning_path example_candidate example_user)) = 3
   \<and> total_estimated_weeks (generate_learning_path example_candidate example_user) = 11"
proof -
  let ?steps = "learning_steps (generate_learning_path example_candidate example_user)"
  have "map estimated_weeks ?steps
        = map (\<lambda>t. snd (snd (snd (snd (snd t)))))
            (map (\<lambda>s. (step s, current_level s, target_level s, improvement_needed s,
                        ls_priority s, estimated_weeks s)) ?steps)"
    by (simp add: comp_def)
  then have w: "map estimated_weeks ?steps = [6, 3, 2]"
    by (simp only: example_learning_path) simp
  have "length ?steps
        = length (map (\<lambda>s. (step s, current_level s, target_level s, improvement_needed s,
                        ls_priority s, estimated_weeks s)) ?steps)"
    by simp
  then have l: "length ?steps = 3" by (simp only: example_learning_path) simp
  have t: "(''timing'', 0.75) \<in> set (pattern_data example_candidate)"
    "map_of example_user ''timing'' = Some 0.625"
    by (simp_all add: example_candidate_def example_user_def)
  have g: "fl 0.1 < fl (0.75 - 0.625)" by (simp add: fl_eval)
  show ?thesis
    using learning_path_steps[of example_candidate example_user] example_learning_path w l t g
    by simp
qed

text \<open>
  Claim C8 as stated fails. With the user at 0.5625 and the expert at 0.875 on eye
  contact, the only metric both vectors have, the path has one step with gap 0.3125 and
  an estimate of 2 weeks, not \<open>max(2, 0.3125 * 8) = 2.5\<close>; the five other metrics of the
  expert pattern, which the user vector lacks, yield no step.
\<close>

theorem estimated_weeks_truncated:
  "length (learning_steps (generate_learning_path example_candidate [(''eye_contact'', 0.5625)])) = 1
   \<and> improvement_needed (hd (learning_steps
         (generate_learning_path example_candidate [(''eye_contact'', 0.5625)]))) = 0.3125
   \<and> real_of_int (estimated_weeks (hd (learning_steps
         (generate_learning_path example_candidate [(''eye_contact'', 0.5625)]))))
       \<noteq> max 2 (improvement_needed (hd (learning_steps
         (generate_learning_path example_candidate [(''eye_contact'', 0.5625)]))) * 8)"
  by (simp add: generate_learning_path_def example_candidate_def fl_eval
        py_sorted_desc_def py_slice_to_def py_int_def)

text \<open>
  Claim C1. The weight table lists the peer-level strategy as \<^verbatim>\<open>similar_performance\<close>
  with weight 0.4, but the strategy's candidates are combined under the name
  \<^verbatim>\<open>similar_level\<close>, which the table does not have, so they get the default 0.1.
  For one expert whose average equals the user's, the only candidate has raw score 1,
  strategy weight 0.1 and final score 0.1 instead of 0.4.
\<close>

theorem similar_level_weight_is_default:
  "(case get_personalized_recommendations peer_db 7 ''Public Speaking'' [(''eye_contact'', 0.5)] 5 of
      Inl e \<Rightarrow> []
    | Inr b \<Rightarrow> map (\<lambda>r. (strategy (rec_data r), recommendation_score (rec_data r),
                          strategy_weight (rec_data r), final_score (rec_data r)))
                 (rb_recommendations b))
   = [(Some ''similar_level'', Some 1, Some 0.1, Some 0.1)]"
  by (simp add: get_personalized_recommendations_def peer_db_def get_available_experts_def
        query_patterns_def query_expert_def find_similar_level_experts_def
        find_aspirational_experts_def find_progressive_experts_def
        find_improvement_focused_experts_def get_trending_experts_def
        rank_and_combine_recommendations_def top_by_score_def average_def score_of_def final_of_def
        py_sorted_desc_def py_slice_to_def dict_get_def recommendation_strategies_def
        estimate_improvement_timeline_def assess_user_level_def Let_def)

text \<open>
  Claim C3. On an empty user metric vector the comparator returns the overall score 0 and
  the real-time classifier on an empty metric list returns its neutral score 50, but the
  recommendation request does not return: the peer-level strategy divides by the number
  of user metrics first, and the division by zero propagates.
\<close>

theorem empty_user_metrics_raise:
  "get_personalized_recommendations db user_id skill_type [] n = Inl ZeroDivisionError
   \<and> fst (compare_to_expert [] expert_pattern skill_type') = 0
   \<and> calculate_overall_score [] skill_type'' = 50"
  by (simp add: get_personalized_recommendations_def find_similar_level_experts_def average_def
        compare_to_expert_def calculate_overall_score_def Let_def)

section \<open>Properties of the comparator in double precision\<close>

subsection \<open>Bounds of the overall similarity\<close>

lemma skill_weights_f64_get:
  "dict_get skill_weights_f64 s [] = map (\<lambda>(k, w). (k, fl w)) (dict_get skill_weights s [])"
  by (simp add: dict_get_def skill_weights_f64_def map_of_map split: option.splits)

lemma effective_weights_f64_nonneg: "0 \<le> dict_get (effective_weights_f64 um s) k (fl 0.1)"
proof (cases "map_of (effective_weights_f64 um s) k")
  case None
  then show ?thesis by (simp add: dict_get_def fl_nonneg)
next
  case (Some v)
  then have mem: "(k, v) \<in> set (effective_weights_f64 um s)" by (rule map_of_SomeD)
  have "0 \<le> v"
  proof (cases "dict_get skill_weights_f64 s [] = []")
    case True
    with mem have "v = fl (1 / real (length um))" by (auto simp: effective_weights_f64_def)
    then show ?thesis by (simp add: fl_nonneg)
  next
    case False
    with mem have "(k, v) \<in> set (dict_get skill_weights_f64 s [])"
      by (simp add: effective_weights_f64_def)
    then obtain w where w: "(k, w) \<in> set (dict_get skill_weights s [])" and v: "v = fl w"
      unfolding skill_weights_f64_get by auto
    have "dict_get skill_weights s [] \<noteq> []" using w by auto
    then have "\<forall>p\<in>set (dict_get skill_weights s []). 0 \<le> snd p"
      using skill_weights_cases[of s] by (simp add: Let_def)
    with w have "0 \<le> w" by fastforce
    then show ?thesis unfolding v by (rule fl_nonneg)
  qed
  with Some show ?thesis by (simp add: dict_get_def)
qed

lemma compare_loop_f64_nonneg:
  assumes "0 \<le> fst acc" and "in_unit_range um" and "in_unit_range ep"
    and w: "\<And>k. 0 \<le> dict_get ws k (fl 0.1)"
  shows "0 \<le> fst (compare_loop_f64 ws ep um acc)"
  using assms(1,2)
proof (induction um arbitrary: acc)
  case Nil
  then show ?case by simp
next
  case (Cons a um)
  obtain m uv where a: "a = (m, uv)" by (cases a)
  obtain t c where acc: "acc = (t, c)" by (cases acc)
  let ?ev = "dict_get ep m 0.5"
  let ?sim = "fl (1 - \<bar>fl (uv - ?ev)\<bar>)"
  let ?ws = "fl (?sim * dict_get ws m (fl 0.1))"
  from Cons.prems(2) have uv: "0 \<le> uv" "uv \<le> 1" and rest: "in_unit_range um"
    unfolding a by (simp_all add: in_unit_range_def)
  have ev: "0 \<le> ?ev" "?ev \<le> 1" using in_unit_range_get[OF assms(3), of m] by simp_all
  have "\<bar>uv - ?ev\<bar> \<le> 1" using uv ev by linarith
  then have "\<bar>fl (uv - ?ev)\<bar> \<le> 1" by (rule fl_abs_le_one)
  then have "0 \<le> ?sim" by (intro fl_nonneg) simp
  then have "0 \<le> ?sim * dict_get ws m (fl 0.1)" using w[of m] by (rule mult_nonneg_nonneg)
  then have "0 \<le> ?ws" by (rule fl_nonneg)
  moreover have "0 \<le> t" using Cons.prems(1) acc by simp
  ultimately have "0 \<le> fl (t + ?ws)" by (intro fl_nonneg) simp
  then have "0 \<le> fst (fl (t + ?ws),
      AList.update m \<lparr>user_value = uv, expert_value = ?ev, similarity = ?sim,
        weight = dict_get ws m (fl 0.1), weighted_score = ?ws, gap = fl (?ev - uv)\<rparr> c)"
    by simp
  from Cons.IH[OF this rest] show ?case unfolding a acc by (simp add: Let_def)
qed

text \<open>
  Claim C2, as amended. For metric vectors with all values in \<open>[0, 1]\<close> and every skill
  type the overall similarity is never negative. It is not bounded by 1: the weighted
  similarities are summed without normalisation and every sum is rounded.
\<close>

theorem overall_similarity_nonneg:
  assumes "in_unit_range um" and "in_unit_range ep"
  shows "0 \<le> fst (compare_to_expert_f64 um ep s)"
proof -
  have "fst (compare_to_expert_f64 um ep s)
        = fst (compare_loop_f64 (effective_weights_f64 um s) ep um (0, []))"
    by (simp add: compare_to_expert_f64_def Let_def split: prod.splits)
  moreover have "0 \<le> fst (compare_loop_f64 (effective_weights_f64 um s) ep um (0, []))"
    using assms by (intro compare_loop_f64_nonneg effective_weights_f64_nonneg) simp_all
  ultimately show ?thesis by simp
qed


theorem overall_similarity_nonneg_witness:
  "in_unit_range [(''eye_contact'', fl 0.3), (''speaking_pace'', 1)]
   \<and> in_unit_range [(''eye_contact'', fl 0.9)]
   \<and> 0 \<le> fst (compare_to_expert_f64 [(''eye_contact'', fl 0.3), (''speaking_pace'', 1)]
                [(''eye_contact'', fl 0.9)] ''Public Speaking'')"
proof -
  have u: "in_unit_range [(''eye_contact'', fl 0.3), (''speaking_pace'', 1)]"
    by (simp add: in_unit_range_def fl_nonneg fl_le_one)
  have e: "in_unit_range [(''eye_contact'', fl 0.9)]"
    by (simp add: in_unit_range_def fl_nonneg fl_le_one)
  show ?thesis using overall_similarity_nonneg[OF u e] u e by simp
qed

lemma fl_ninth: "fl (1 / 9) = 2001599834386887 / 2 ^ 54"
  by (simp add: fl_eval)

lemma compare_loop_f64_total:
  "fst (compare_loop_f64 ws ep um acc) =
     foldl (\<lambda>t p. fl (t + fl (fl (1 - \<bar>fl (snd p - dict_get ep (fst p) 0.5)\<bar>)
                              * dict_get ws (fst p) (fl 0.1))))
       (fst acc) um"
proof (induction um arbitrary: acc)
  case Nil
  then show ?case by simp
next
  case (Cons a um)
  obtain m uv where a: "a = (m, uv)" by (cases a)
  obtain t c where acc: "acc = (t, c)" by (cases acc)
  show ?case unfolding a acc by (simp add: Cons.IH Let_def)
qed

lemma overall_f64_eq:
  "fst (compare_to_expert_f64 um ep s) =
     foldl (\<lambda>t p. fl (t + fl (fl (1 - \<bar>fl (snd p - dict_get ep (fst p) 0.5)\<bar>)
                              * dict_get (effective_weights_f64 um s) (fst p) (fl 0.1))))
       0 um"
proof -
  have "fst (compare_to_expert_f64 um ep s)
        = fst (compare_loop_f64 (effective_weights_f64 um s) ep um (0, []))"
    by (simp add: compare_to_expert_f64_def Let_def split: prod.splits)
  then show ?thesis by (simp add: compare_loop_f64_total)
qed

lemma nine_terms:
  "map (\<lambda>p. fl (fl (1 - \<bar>fl (snd p - dict_get nine_metrics (fst p) 0.5)\<bar>)
                * dict_get (effective_weights_f64 nine_metrics ''Glassblowing'') (fst p) (fl 0.1)))
       nine_metrics
   = [fl (1 / 9), fl (1 / 9), fl (1 / 9), fl (1 / 9), fl (1 / 9), fl (1 / 9), fl (1 / 9),
      fl (1 / 9), fl (1 / 9)]"
  by (simp add: effective_weights_f64_def skill_weights_f64_def
        skill_weights_def nine_metrics_def dict_get_def fl_ninth fl_zero fl_one)
     (simp add: fl_eval)

lemma nine_sum:
  "foldl (\<lambda>t x. fl (t + x)) 0
     [fl (1 / 9), fl (1 / 9), fl (1 / 9), fl (1 / 9), fl (1 / 9), fl (1 / 9), fl (1 / 9),
      fl (1 / 9), fl (1 / 9)] = 1 + 1 / 2 ^ 52"
proof -
  have s1: "fl (0 + fl (1 / 9)) = (2001599834386887 / 2 ^ 54 :: real)" unfolding fl_ninth by (simp add: fl_eval)
  have s2: "fl (2001599834386887 / 2 ^ 54 + fl (1 / 9)) = (2001599834386887 / 2 ^ 53 :: real)" unfolding fl_ninth by (simp add: fl_eval)
  have s3: "fl (2001599834386887 / 2 ^ 53 + fl (1 / 9)) = (6004799503160661 / 2 ^ 54 :: real)" unfolding fl_ninth by (simp add: fl_eval)
  have s4: "fl (6004799503160661 / 2 ^ 54 + fl (1 / 9)) = (2001599834386887 / 2 ^ 52 :: real)" unfolding fl_ninth by (simp add: fl_eval)
  have s5: "fl (2001599834386887 / 2 ^ 52 + fl (1 / 9)) = (2501999792983609 / 2 ^ 52 :: real)" unfolding fl_ninth by (simp add: fl_eval)
  have s6: "fl (2501999792983609 / 2 ^ 52 + fl (1 / 9)) = (3002399751580331 / 2 ^ 52 :: real)" unfolding fl_ninth by (simp add: fl_eval)
  have s7: "fl (3002399751580331 / 2 ^ 52 + fl (1 / 9)) = (3502799710177053 / 2 ^ 52 :: real)" unfolding fl_ninth by (simp add: fl_eval)
  have s8: "fl (3502799710177053 / 2 ^ 52 + fl (1 / 9)) = (4003199668773775 / 2 ^ 52 :: real)" unfolding fl_ninth by (simp add: fl_eval)
  have s9: "fl (4003199668773775 / 2 ^ 52 + fl (1 / 9)) = (4503599627370497 / 2 ^ 52 :: real)" unfolding fl_ninth by (simp add: fl_eval)
  have "foldl (\<lambda>t x. fl (t + x)) 0
     [fl (1 / 9), fl (1 / 9), fl (1 / 9), fl (1 / 9), fl (1 / 9), fl (1 / 9), fl (1 / 9),
      fl (1 / 9), fl (1 / 9)] = (4503599627370497 / 2 ^ 52 :: real)"
    by (simp only: foldl.simps s1 s2 s3 s4 s5 s6 s7 s8 s9)
  then show ?thesis by simp
qed

lemma nine_metrics_overall:
  "fst (compare_to_expert_f64 nine_metrics nine_metrics ''Glassblowing'') = 1 + 1 / 2 ^ 52"
proof -
  have "fst (compare_to_expert_f64 nine_metrics nine_metrics ''Glassblowing'')
        = foldl (\<lambda>t x. fl (t + x)) 0
            (map (\<lambda>p. fl (fl (1 - \<bar>fl (snd p - dict_get nine_metrics (fst p) 0.5)\<bar>)
                * dict_get (effective_weights_f64 nine_metrics ''Glassblowing'') (fst p) (fl 0.1)))
               nine_metrics)"
    by (simp only: overall_f64_eq foldl_map)
  then show ?thesis by (simp only: nine_terms nine_sum)
qed

text \<open>
  Claim C2 as stated fails. Nine metrics on which user and expert agree, under a skill
  type without a weight table, get the weight 1/9 each as a double; the nine rounded
  additions give \<open>1 + 2 ^ -52\<close>, which Python prints as 1.0000000000000002.
\<close>

theorem overall_similarity_above_one:
  "in_unit_range nine_metrics
   \<and> \<not> fst (compare_to_expert_f64 nine_metrics nine_metrics ''Glassblowing'') \<le> 1"
  by (simp add: nine_metrics_overall) (simp add: in_unit_range_def nine_metrics_def)

subsection \<open>Symmetry\<close>

lemma effective_weights_f64_same_names:
  "map fst m1 = map fst m2 \<Longrightarrow> effective_weights_f64 m1 s = effective_weights_f64 m2 s"
proof -
  assume k: "map fst m1 = map fst m2"
  then have len: "length m1 = length m2" by (metis length_map)
  show ?thesis by (simp only: effective_weights_f64_def k len)
qed

lemma fl_abs_diff: "\<bar>fl (a - b)\<bar> = \<bar>fl (b - a)\<bar>"
proof -
  have "fl (a - b) = fl (- (b - a))" by simp
  also have "\<dots> = - fl (b - a)" by (rule fl_minus)
  finally show ?thesis by simp
qed

text \<open>
  Claim C4, as amended. The overall similarity is symmetric in its two metric vectors
  when both list the same metric names in the same order: \<open>compare(m1, m2, s)\<close> and
  \<open>compare(m2, m1, s)\<close> then agree for every skill type. The loop runs over the first
  vector, in its order, and every addition is rounded, so the order of the names matters.
\<close>

theorem overall_similarity_symmetric:
  assumes d: "distinct (map fst m1)" and k: "map fst m1 = map fst m2"
  shows "fst (compare_to_expert_f64 m1 m2 s) = fst (compare_to_expert_f64 m2 m1 s)"
proof -
  let ?W = "effective_weights_f64 m1 s"
  let ?T = "\<lambda>ep p. fl (fl (1 - \<bar>fl (snd p - dict_get ep (fst p) 0.5)\<bar>)
                        * dict_get ?W (fst p) (fl 0.1))"
  have W: "effective_weights_f64 m2 s = ?W"
    using k by (rule effective_weights_f64_same_names[symmetric])
  have len: "length m1 = length m2" using k by (metis length_map)
  have d2: "distinct (map fst m2)" using d k by simp
  have terms: "map (?T m2) m1 = map (?T m1) m2"
  proof (rule nth_equalityI)
    show "length (map (?T m2) m1) = length (map (?T m1) m2)" using len by simp
  next
    fix i assume "i < length (map (?T m2) m1)"
    then have i1: "i < length m1" and i2: "i < length m2" using len by simp_all
    have key: "fst (m1 ! i) = fst (m2 ! i)"
      using k i1 i2 by (metis nth_map)
    have e2: "dict_get m2 (fst (m2 ! i)) 0.5 = snd (m2 ! i)"
      using d2 i2 by (intro dict_get_distinct) simp_all
    have e1: "dict_get m1 (fst (m2 ! i)) 0.5 = snd (m1 ! i)"
      unfolding key[symmetric] using d i1 by (intro dict_get_distinct) simp_all
    have l: "?T m2 (m1 ! i) = fl (fl (1 - \<bar>fl (snd (m1 ! i) - snd (m2 ! i))\<bar>)
                                  * dict_get ?W (fst (m2 ! i)) (fl 0.1))"
      by (simp only: key e2)
    have r: "?T m1 (m2 ! i) = fl (fl (1 - \<bar>fl (snd (m2 ! i) - snd (m1 ! i))\<bar>)
                                  * dict_get ?W (fst (m2 ! i)) (fl 0.1))"
      by (simp only: e1)
    have "?T m2 (m1 ! i) = ?T m1 (m2 ! i)"
      unfolding l r by (simp only: fl_abs_diff[of "snd (m1 ! i)" "snd (m2 ! i)"])
    then show "map (?T m2) m1 ! i = map (?T m1) m2 ! i" using i1 i2 by simp
  qed
  have "fst (compare_to_expert_f64 m1 m2 s) = foldl (\<lambda>t x. fl (t + x)) 0 (map (?T m2) m1)"
    by (simp only: overall_f64_eq foldl_map)
  also have "\<dots> = foldl (\<lambda>t x. fl (t + x)) 0 (map (?T m1) m2)" by (simp only: terms)
  also have "\<dots> = fst (compare_to_expert_f64 m2 m1 s)"
    by (simp only: overall_f64_eq foldl_map W)
  finally show ?thesis .
qed

theorem overall_similarity_symmetric_witness:
  "distinct (map fst [(''eye_contact'', fl 0.3), (''speaking_pace'', 1)])
   \<and> map fst [(''eye_contact'', fl 0.3), (''speaking_pace'', 1)]
       = map fst [(''eye_contact'', fl 0.9), (''speaking_pace'', fl 0.6)]
   \<and> fst (compare_to_expert_f64 [(''eye_contact'', fl 0.3), (''speaking_pace'', 1)]
          [(''eye_contact'', fl 0.9), (''speaking_pace'', fl 0.6)] ''Public Speaking'')
     = fst (compare_to_expert_f64 [(''eye_contact'', fl 0.9), (''speaking_pace'', fl 0.6)]
          [(''eye_contact'', fl 0.3), (''speaking_pace'', 1)] ''Public Speaking'')"
proof -
  have d: "distinct (map fst [(''eye_contact'', fl 0.3), (''speaking_pace'', 1::real)])" by simp
  have k: "map fst [(''eye_contact'', fl 0.3), (''speaking_pace'', 1::real)]
         = map fst [(''eye_contact'', fl 0.9), (''speaking_pace'', fl 0.6)]" by simp
  show ?thesis using overall_similarity_symmetric[OF d k] d k by blast
qed

lemma abc_cba_terms:
  "map (\<lambda>p. fl (fl (1 - \<bar>fl (snd p - dict_get cba_ones (fst p) 0.5)\<bar>)
                * dict_get (effective_weights_f64 abc_metrics ''Glassblowing'') (fst p) (fl 0.1)))
       abc_metrics
   = [300239975158033 / 2 ^ 53, 8406719304424925 / 2 ^ 55, 3602879701896397 / 2 ^ 55]"
  by (simp add: effective_weights_f64_def skill_weights_f64_def skill_weights_def
        abc_metrics_def cba_ones_def dict_get_def)
     (simp add: fl_eval)

lemma abc_cba_overall:
  "fst (compare_to_expert_f64 abc_metrics cba_ones ''Glassblowing'') = 3302639726738363 / 2 ^ 53"
proof -
  have s1: "fl (0 + 300239975158033 / 2 ^ 53) = (300239975158033 / 2 ^ 53 :: real)" by (simp add: fl_eval)
  have s2: "fl (300239975158033 / 2 ^ 53 + 8406719304424925 / 2 ^ 55) = (300239975158033 / 2 ^ 50 :: real)" by (simp add: fl_eval)
  have s3: "fl (300239975158033 / 2 ^ 50 + 3602879701896397 / 2 ^ 55) = (3302639726738363 / 2 ^ 53 :: real)" by (simp add: fl_eval)
  have "foldl (\<lambda>t x. fl (t + x)) 0 [300239975158033 / 2 ^ 53, 8406719304424925 / 2 ^ 55, 3602879701896397 / 2 ^ 55] = (3302639726738363 / 2 ^ 53 :: real)"
    by (simp only: foldl.simps s1 s2 s3)
  moreover have "fst (compare_to_expert_f64 abc_metrics cba_ones ''Glassblowing'')
        = foldl (\<lambda>t x. fl (t + x)) 0
            (map (\<lambda>p. fl (fl (1 - \<bar>fl (snd p - dict_get cba_ones (fst p) 0.5)\<bar>)
                * dict_get (effective_weights_f64 abc_metrics ''Glassblowing'') (fst p) (fl 0.1)))
               abc_metrics)"
    by (simp only: overall_f64_eq foldl_map)
  ultimately show ?thesis by (simp only: abc_cba_terms)
qed

lemma cba_abc_terms:
  "map (\<lambda>p. fl (fl (1 - \<bar>fl (snd p - dict_get abc_metrics (fst p) 0.5)\<bar>)
                * dict_get (effective_weights_f64 cba_ones ''Glassblowing'') (fst p) (fl 0.1)))
       cba_ones
   = [3602879701896397 / 2 ^ 55, 8406719304424925 / 2 ^ 55, 300239975158033 / 2 ^ 53]"
  by (simp add: effective_weights_f64_def skill_weights_f64_def skill_weights_def
        abc_metrics_def cba_ones_def dict_get_def)
     (simp add: fl_eval)

lemma cba_abc_overall:
  "fst (compare_to_expert_f64 cba_ones abc_metrics ''Glassblowing'') = 6605279453476727 / 2 ^ 54"
proof -
  have s1: "fl (0 + 3602879701896397 / 2 ^ 55) = (3602879701896397 / 2 ^ 55 :: real)" by (simp add: fl_eval)
  have s2: "fl (3602879701896397 / 2 ^ 55 + 8406719304424925 / 2 ^ 55) = (6004799503160661 / 2 ^ 54 :: real)" by (simp add: fl_eval)
  have s3: "fl (6004799503160661 / 2 ^ 54 + 300239975158033 / 2 ^ 53) = (6605279453476727 / 2 ^ 54 :: real)" by (simp add: fl_eval)
  have "foldl (\<lambda>t x. fl (t + x)) 0 [3602879701896397 / 2 ^ 55, 8406719304424925 / 2 ^ 55, 300239975158033 / 2 ^ 53] = (6605279453476727 / 2 ^ 54 :: real)"
    by (simp only: foldl.simps s1 s2 s3)
  moreover have "fst (compare_to_expert_f64 cba_ones abc_metrics ''Glassblowing'')
        = foldl (\<lambda>t x. fl (t + x)) 0
            (map (\<lambda>p. fl (fl (1 - \<bar>fl (snd p - dict_get abc_metrics (fst p) 0.5)\<bar>)
                * dict_get (effective_weights_f64 cba_ones ''Glassblowing'') (fst p) (fl 0.1)))
               cba_ones)"
    by (simp only: overall_f64_eq foldl_map)
  ultimately show ?thesis by (simp only: cba_abc_terms)
qed

text \<open>
  Claim C4 as stated fails. The vectors \<open>{a: 0.1, b: 0.7, c: 0.3}\<close> and
  \<open>{c: 1, b: 1, a: 1}\<close> have the same names in opposite order; under the equal-weight
  fallback one direction gives 0.3666666666666666 and the other 0.36666666666666664, one
  unit in the last place apart.
\<close>

theorem overall_similarity_asymmetric:
  "fst (compare_to_expert_f64 abc_metrics cba_ones ''Glassblowing'')
     \<noteq> fst (compare_to_expert_f64 cba_ones abc_metrics ''Glassblowing'')"
  by (simp only: abc_cba_overall cba_abc_overall) simp

subsection \<open>The worked scenario\<close>

lemma scenario_result:
  assumes "dict_get skill_weights_f64 skill [] = []"
  shows "compare_to_expert_f64 [(''speaking_pace'', 1), (''eye_contact'', fl 0.3)]
           [(''speaking_pace'', 1), (''eye_contact'', fl 0.9)] skill
         = (fl 0.7,
            \<lparr>overall_similarity = fl 0.7,
             metric_breakdown =
               [(''speaking_pace'',
                   \<lparr>user_value = 1, expert_value = 1, similarity = 1, weight = 0.5,
                    weighted_score = 0.5, gap = 0\<rparr>),
                (''eye_contact'',
                   \<lparr>user_value = fl 0.3, expert_value = fl 0.9,
                    similarity = 900719925474099 / 2 ^ 51, weight = 0.5,
                    weighted_score = 900719925474099 / 2 ^ 52,
                    gap = 1351079888211149 / 2 ^ 51\<rparr>)],
             cd_skill_type = skill\<rparr>)"
  using assms
  by (simp add: compare_to_expert_f64_def effective_weights_f64_def dict_get_def Let_def)
     (simp add: fl_eval)

text \<open>
  Claim C9, as amended. For a skill type without a weight table the two metrics of the
  scenario are weighted 0.5 each. The per-metric similarities are 1.0 and
  0.3999999999999999, the double one step below 0.4 (0.9 - 0.3 is 0.6000000000000001 in
  double precision), and the overall score is \<open>0.5 * 1.0 + 0.5 * 0.3999999999999999\<close>,
  which is the double 0.7.
\<close>

theorem equal_weight_scenario:
  assumes "dict_get skill_weights_f64 skill [] = []"
  shows "compare_to_expert_f64 [(''speaking_pace'', 1), (''eye_contact'', fl 0.3)]
           [(''speaking_pace'', 1), (''eye_contact'', fl 0.9)] skill
         = (fl 0.7,
            \<lparr>overall_similarity = fl 0.7,
             metric_breakdown =
               [(''speaking_pace'',
                   \<lparr>user_value = 1, expert_value = 1, similarity = 1, weight = 0.5,
                    weighted_score = 0.5, gap = 0\<rparr>),
                (''eye_contact'',
                   \<lparr>user_value = fl 0.3, expert_value = fl 0.9,
                    similarity = 900719925474099 / 2 ^ 51, weight = 0.5,
                    weighted_score = 900719925474099 / 2 ^ 52,
                    gap = 1351079888211149 / 2 ^ 51\<rparr>)],
             cd_skill_type = skill\<rparr>)"
  using assms by (rule scenario_result)

theorem equal_weight_scenario_witness:
  "dict_get skill_weights_f64 ''Glassblowing'' [] = []
   \<and> fst (compare_to_expert_f64 [(''speaking_pace'', 1), (''eye_contact'', fl 0.3)]
           [(''speaking_pace'', 1), (''eye_contact'', fl 0.9)] ''Glassblowing'') = fl 0.7"
proof -
  have h: "dict_get skill_weights_f64 ''Glassblowing'' [] = []"
    by (simp add: dict_get_def skill_weights_f64_def skill_weights_def)
  show ?thesis using equal_weight_scenario[OF h] h by simp
qed

lemma scenario_similarity:
  "similarity (snd (metric_breakdown (snd (compare_to_expert_f64
       [(''speaking_pace'', 1), (''eye_contact'', fl 0.3)]
       [(''speaking_pace'', 1), (''eye_contact'', fl 0.9)] ''Glassblowing'')) ! 1))
   = 900719925474099 / 2 ^ 51"
proof -
  have h: "dict_get skill_weights_f64 ''Glassblowing'' [] = []"
    by (simp add: dict_get_def skill_weights_f64_def skill_weights_def)
  show ?thesis by (simp add: scenario_result[OF h])
qed

text \<open>
  Claim C9 as stated fails: the similarity of eye contact is neither the number 0.4 nor
  the double 0.4.
\<close>

theorem scenario_similarity_below:
  "similarity (snd (metric_breakdown (snd (compare_to_expert_f64
       [(''speaking_pace'', 1), (''eye_contact'', fl 0.3)]
       [(''speaking_pace'', 1), (''eye_contact'', fl 0.9)] ''Glassblowing'')) ! 1)) \<noteq> 0.4
   \<and> similarity (snd (metric_breakdown (snd (compare_to_expert_f64
       [(''speaking_pace'', 1), (''eye_contact'', fl 0.3)]
       [(''speaking_pace'', 1), (''eye_contact'', fl 0.9)] ''Glassblowing'')) ! 1)) \<noteq> fl 0.4"
  unfolding scenario_similarity by (simp add: fl_eval)


end
